theory Spec2Isabelle
  imports Main
begin

section \<open>Names of R values: \<open>src/internal/attr.c\<close>\<close>

text \<open>
  A shallow embedding of \<open>rlang_names2\<close> (the name reader) and \<open>rlang_set_names\<close>
  (the name writer) of \<open>src/internal/attr.c\<close>. The R evaluator is external to the file:
  it is a parameter of every definition (a \<open>host\<close>). The protection stack of the
  \<open>KEEP\<close>/\<open>FREE\<close> macros is passed explicitly, and \<open>r_abort\<close> is an error value
  returned together with the stack as it is when the abort is raised.
\<close>

subsection \<open>Values\<close>

text \<open>
  A \<open>CHARSXP\<close>. Strings are interned, so pointer equality in the C code is equality of
  contents, except for the one missing string \<open>NA_STRING\<close>, which is a value of its own.
\<close>

datatype rstr = NA_STRING | Str string

definition r_empty_str :: rstr where
  "r_empty_str = Str []"

text \<open>The attributes that the file reads: the \<open>names\<close> attribute and the object bit.\<close>

record attrib =
  attr_names :: "rstr list option"
  attr_object :: bool

definition no_attrib :: attrib where
  "no_attrib = \<lparr>attr_names = None, attr_object = False\<rparr>"

text \<open>
  The values (\<open>sexp*\<close>), named after R's type tags. A pairlist (\<open>LISTSXP\<close>) and a call
  (\<open>LANGSXP\<close>) are linked cells, each with a tag (a symbol, given by its print name, or
  \<open>r_null\<close>), a payload and the next cell (or \<open>r_null\<close>). Of the vector types, the ones
  whose contents are integers, logicals, strings or values are modelled; the file reads of a
  vector only its type, length and attributes, and the strings of a character vector.
  An environment is given by the number of its bindings, a closure by an identifier.
\<close>

datatype sexp =
    NILSXP
  | SYMSXP string
  | LISTSXP node attrib
  | LANGSXP node attrib
  | CLOSXP nat attrib
  | ENVSXP nat attrib
  | LGLSXP "bool option list" attrib
  | INTSXP "int option list" attrib
  | STRSXP "rstr list" attrib
  | VECSXP "sexp list" attrib
and node =
    Node (r_node_tag: "string option") (r_node_car: sexp) (r_node_cdr: "node option")

abbreviation r_null :: sexp where
  "r_null \<equiv> NILSXP"

datatype r_type =
    r_type_null
  | r_type_symbol
  | r_type_pairlist
  | r_type_closure
  | r_type_environment
  | r_type_call
  | r_type_logical
  | r_type_integer
  | r_type_character
  | r_type_list

fun r_typeof :: "sexp \<Rightarrow> r_type" where
  "r_typeof NILSXP = r_type_null"
| "r_typeof (SYMSXP s) = r_type_symbol"
| "r_typeof (LISTSXP n a) = r_type_pairlist"
| "r_typeof (LANGSXP n a) = r_type_call"
| "r_typeof (CLOSXP f a) = r_type_closure"
| "r_typeof (ENVSXP e a) = r_type_environment"
| "r_typeof (LGLSXP xs a) = r_type_logical"
| "r_typeof (INTSXP xs a) = r_type_integer"
| "r_typeof (STRSXP xs a) = r_type_character"
| "r_typeof (VECSXP xs a) = r_type_list"

fun r_attrib :: "sexp \<Rightarrow> attrib" where
  "r_attrib NILSXP = no_attrib"
| "r_attrib (SYMSXP s) = no_attrib"
| "r_attrib (LISTSXP n a) = a"
| "r_attrib (LANGSXP n a) = a"
| "r_attrib (CLOSXP f a) = a"
| "r_attrib (ENVSXP e a) = a"
| "r_attrib (LGLSXP xs a) = a"
| "r_attrib (INTSXP xs a) = a"
| "r_attrib (STRSXP xs a) = a"
| "r_attrib (VECSXP xs a) = a"

definition r_is_null :: "sexp \<Rightarrow> bool" where
  "r_is_null x = (x = r_null)"

definition r_is_object :: "sexp \<Rightarrow> bool" where
  "r_is_object x = attr_object (r_attrib x)"

text \<open>
  Modelled from the spec: \<open>r_names\<close> is not in \<open>src/\<close>. It is the native accessor of the
  \<open>names\<close> attribute, which never allocates and never dispatches; it does not see the
  tags of a pairlist (comment at lines 14-16 of the source).
\<close>

definition r_names :: "sexp \<Rightarrow> sexp" where
  "r_names x = (case attr_names (r_attrib x) of None \<Rightarrow> r_null | Some ns \<Rightarrow> STRSXP ns no_attrib)"

text \<open>The number of cells from a cell on.\<close>

fun node_length :: "node \<Rightarrow> nat" where
  "node_length (Node tag a d) = Suc (case d of None \<Rightarrow> 0 | Some n \<Rightarrow> node_length n)"

text \<open>
  Modelled from the spec: \<open>r_length\<close> is not in \<open>src/\<close>. It is the element count of a
  value: 0 for \<open>r_null\<close>, the length of a vector, the number of cells of a pairlist or
  call, the number of bindings of an environment, 1 for any other value.
\<close>

fun r_length :: "sexp \<Rightarrow> nat" where
  "r_length NILSXP = 0"
| "r_length (SYMSXP s) = 1"
| "r_length (LISTSXP n a) = node_length n"
| "r_length (LANGSXP n a) = node_length n"
| "r_length (CLOSXP f a) = 1"
| "r_length (ENVSXP e a) = e"
| "r_length (LGLSXP xs a) = length xs"
| "r_length (INTSXP xs a) = length xs"
| "r_length (STRSXP xs a) = length xs"
| "r_length (VECSXP xs a) = length xs"

text \<open>The first cell of a pairlist or call; \<open>r_null\<close> and the other values have none.\<close>

fun r_node :: "sexp \<Rightarrow> node option" where
  "r_node (LISTSXP n a) = Some n"
| "r_node (LANGSXP n a) = Some n"
| "r_node x = None"

text \<open>
  Modelled from the spec: \<open>r_new_vector\<close> is not in \<open>src/\<close>. A new character vector
  of length \<open>n\<close> has no attributes and holds \<open>n\<close> empty strings.
\<close>

definition r_new_character :: "nat \<Rightarrow> sexp" where
  "r_new_character n = STRSXP (replicate n r_empty_str) no_attrib"

text \<open>
  Modelled from the spec: \<open>r_chr_fill\<close> is not in \<open>src/\<close>. \<open>r_chr_fill x v n\<close> stores
  \<open>v\<close> in the first \<open>n\<close> elements of the character vector \<open>x\<close>.
\<close>

fun r_chr_fill :: "sexp \<Rightarrow> rstr \<Rightarrow> nat \<Rightarrow> sexp" where
  "r_chr_fill (STRSXP xs a) v n = STRSXP (replicate (min n (length xs)) v @ drop n xs) a"
| "r_chr_fill x v n = x"

text \<open>The shared character vector of the one empty string.\<close>

definition r_shared_empty_chr :: sexp where
  "r_shared_empty_chr = STRSXP [r_empty_str] no_attrib"

subsection \<open>Errors, the protection stack and the evaluator\<close>

text \<open>
  \<open>r_abort\<close> raises an error with a message; an error raised by the evaluator during a
  delegated call is not caught by the file and is propagated as it is. The three messages
  of the file are the usage error (line 11), the type error (line 74) and the
  type or length mismatch error (line 102) of the spec.
\<close>

datatype 'e error = Abort string | Propagated 'e

definition usage_error :: "'e error" where
  "usage_error = Abort ''Use `env_names()` for environments.''"

definition type_error :: "'e error" where
  "type_error = Abort ''`x` must be a vector''"

definition mismatch_error :: "'e error" where
  "mismatch_error = Abort ''`nm` must be `NULL` or a character vector the same length as `x`''"

text \<open>
  The protection stack: \<open>KEEP\<close> pushes a value, \<open>FREE n\<close> pops \<open>n\<close> values. A call of
  the file returns its result, or its error, and the stack.
\<close>

type_synonym pstack = "sexp list"

type_synonym 'e result = "('e error + sexp) \<times> pstack"

definition KEEP :: "sexp \<Rightarrow> pstack \<Rightarrow> pstack" where
  "KEEP x st = x # st"

definition FREE :: "nat \<Rightarrow> pstack \<Rightarrow> pstack" where
  "FREE n st = drop n st"

text \<open>
  What the file takes from outside: the evaluation of a call template in an environment
  with one or two placeholders bound (\<open>r_eval_in_with_x\<close>, \<open>r_eval_in_with_xy\<close>), the
  dots of an environment (\<open>rlang_dots\<close>, a pairlist or \<open>r_null\<close>; the spec takes them
  as an input of the writer), the concatenation function \<open>c_fn\<close> that
  \<open>rlang_init_attr\<close> resolves, and what \<open>rlang_replace_na\<close> does with a value that is
  not a character vector. A call of the evaluator either returns a value or raises an
  error of the evaluator, and leaves the protection stack as it found it.
\<close>

record 'e host =
  r_eval_in_with_x :: "sexp \<Rightarrow> sexp \<Rightarrow> sexp \<Rightarrow> sexp \<Rightarrow> 'e + sexp"
  r_eval_in_with_xy :: "sexp \<Rightarrow> sexp \<Rightarrow> sexp \<Rightarrow> sexp \<Rightarrow> sexp \<Rightarrow> sexp \<Rightarrow> 'e + sexp"
  rlang_dots :: "sexp \<Rightarrow> node option"
  c_fn :: sexp
  replace_na_other :: "sexp \<Rightarrow> sexp \<Rightarrow> 'e + sexp"

definition r_dot_x_sym :: sexp where
  "r_dot_x_sym = SYMSXP ''.x''"

definition r_dot_y_sym :: sexp where
  "r_dot_y_sym = SYMSXP ''.y''"

definition r_dot_fn_sym :: sexp where
  "r_dot_fn_sym = SYMSXP ''.fn''"

text \<open>\<open>r_new_node car cdr\<close> is a pairlist cell without a tag, \<open>r_new_call\<close> a call cell.\<close>

definition r_new_node :: "sexp \<Rightarrow> sexp \<Rightarrow> sexp" where
  "r_new_node car cdr = LISTSXP (Node None car (r_node cdr)) no_attrib"

definition r_new_call :: "sexp \<Rightarrow> sexp \<Rightarrow> sexp" where
  "r_new_call car cdr = LANGSXP (Node None car (r_node cdr)) no_attrib"

text \<open>The templates that \<open>rlang_init_attr\<close> parses once (lines 153-167).\<close>

definition as_character_call :: sexp where
  "as_character_call = r_new_call (SYMSXP ''as.character'') (r_new_node r_dot_x_sym r_null)"

definition names_call :: sexp where
  "names_call = r_new_call (SYMSXP ''names'') (r_new_node r_dot_x_sym r_null)"

definition as_function_call :: sexp where
  "as_function_call = r_new_call (SYMSXP ''as_function'') (r_new_node r_dot_x_sym r_null)"

definition set_names_call :: sexp where
  "set_names_call =
     r_new_call (SYMSXP ''names<-'') (r_new_node r_dot_x_sym (r_new_node r_dot_y_sym r_null))"

definition r_as_character :: "'e host \<Rightarrow> sexp \<Rightarrow> sexp \<Rightarrow> 'e + sexp" where
  "r_as_character h x env = r_eval_in_with_x h as_character_call env x r_dot_x_sym"

definition r_names_dispatch :: "'e host \<Rightarrow> sexp \<Rightarrow> sexp \<Rightarrow> 'e + sexp" where
  "r_names_dispatch h x env = r_eval_in_with_x h names_call env x r_dot_x_sym"

definition r_as_function :: "'e host \<Rightarrow> sexp \<Rightarrow> sexp \<Rightarrow> 'e + sexp" where
  "r_as_function h x env = r_eval_in_with_x h as_function_call env x r_dot_x_sym"

definition r_set_names_dispatch :: "'e host \<Rightarrow> sexp \<Rightarrow> sexp \<Rightarrow> sexp \<Rightarrow> 'e + sexp" where
  "r_set_names_dispatch h x nm env =
     r_eval_in_with_xy h set_names_call env x r_dot_x_sym nm r_dot_y_sym"

text \<open>
  Modelled from the spec: \<open>rlang_replace_na\<close> is not in \<open>src/\<close>. On a character vector
  and a replacement of one string it replaces every missing string by the replacement and
  keeps order, length and attributes. The spec says nothing of a value that is not a
  character vector: that case is left to the host.
\<close>

fun rlang_replace_na :: "'e host \<Rightarrow> sexp \<Rightarrow> sexp \<Rightarrow> 'e + sexp" where
  "rlang_replace_na h (STRSXP xs a) (STRSXP [r] b) =
     Inr (STRSXP (map (\<lambda>s. if s = NA_STRING then r else s) xs) a)"
| "rlang_replace_na h x y = replace_na_other h x y"

subsection \<open>The name reader: \<open>rlang_names2\<close>\<close>

text \<open>The print name of a tag: \<open>PRINTNAME\<close> of a symbol.\<close>

definition PRINTNAME :: "string \<Rightarrow> rstr" where
  "PRINTNAME s = Str s"

text \<open>
  The loop of \<open>r_node_names\<close> (lines 48-56): \<open>x\<close> is the current cell or \<open>r_null\<close>,
  \<open>i\<close> the index, \<open>p_out\<close> the strings of the output vector.
\<close>

fun r_node_names_loop :: "node option \<Rightarrow> nat \<Rightarrow> rstr list \<Rightarrow> rstr list" where
  "r_node_names_loop None i p_out = p_out"
| "r_node_names_loop (Some (Node tag a d)) i p_out =
     r_node_names_loop d (Suc i)
       (p_out[i := (case tag of None \<Rightarrow> r_empty_str | Some s \<Rightarrow> PRINTNAME s)])"

text \<open>
  Lines 40-60. \<open>STRING_PTR\<close> gives the strings of a character vector, which the loop
  writes in place. The function is called on a pairlist or a call only (line 17).
\<close>

fun STRING_PTR :: "sexp \<Rightarrow> rstr list" where
  "STRING_PTR (STRSXP xs a) = xs"
| "STRING_PTR x = []"

definition r_node_names :: "sexp \<Rightarrow> pstack \<Rightarrow> 'e result" where
  "r_node_names x st =
     (let n = r_length x;
          out = r_new_character n;
          st1 = KEEP out st;
          p_out = r_node_names_loop (r_node x) 0 (STRING_PTR out)
      in (Inr (STRSXP p_out (r_attrib out)), FREE 1 st1))"

text \<open>
  Lines 21-26: the names before they are completed, from the \<open>names\<close> generic for an
  object and from the native accessor otherwise.
\<close>

definition underlying_names :: "'e host \<Rightarrow> sexp \<Rightarrow> sexp \<Rightarrow> 'e + sexp" where
  "underlying_names h x env =
     (if r_is_object x then r_names_dispatch h x env else Inr (r_names x))"

definition rlang_names2 :: "'e host \<Rightarrow> sexp \<Rightarrow> sexp \<Rightarrow> pstack \<Rightarrow> 'e result" where
  "rlang_names2 h x env st =
     (let type = r_typeof x in
      if type = r_type_environment then (Inl usage_error, st)
      else if type = r_type_pairlist \<or> type = r_type_call then r_node_names x st
      else
        (case underlying_names h x env of
           Inl e \<Rightarrow> (Inl (Propagated e), st)
         | Inr nms \<Rightarrow>
             let st1 = KEEP nms st in
             if r_is_null nms then
               let n = r_length x;
                   nms1 = r_new_character n;
                   st2 = KEEP nms1 st1
               in (Inr (r_chr_fill nms1 r_empty_str n), FREE 2 st2)
             else
               (case rlang_replace_na h nms r_shared_empty_chr of
                  Inl e \<Rightarrow> (Inl (Propagated e), st1)
                | Inr nms1 \<Rightarrow> (Inr nms1, FREE 2 (KEEP nms1 st1)))))"

subsection \<open>The name writer: \<open>rlang_set_names\<close>\<close>

text \<open>
  Modelled from the spec: \<open>r_is_vector\<close> is not in \<open>src/\<close>. A vector-like value is a
  value of a vector type; the length \<open>-1\<close> of the call at line 73 puts no condition on
  the length.
\<close>

definition r_is_vector :: "sexp \<Rightarrow> bool" where
  "r_is_vector x =
     (r_typeof x = r_type_logical \<or> r_typeof x = r_type_integer \<or>
      r_typeof x = r_type_character \<or> r_typeof x = r_type_list)"

text \<open>
  Modelled from the spec: \<open>r_is_character\<close> is not in \<open>src/\<close>. It holds of a character
  vector whose length is exactly \<open>n\<close>.
\<close>

definition r_is_character :: "sexp \<Rightarrow> nat \<Rightarrow> bool" where
  "r_is_character x n = (r_typeof x = r_type_character \<and> r_length x = n)"

text \<open>
  Modelled from the spec: \<open>r_is_function\<close> is not in \<open>src/\<close>. A function is a closure.
\<close>

definition r_is_function :: "sexp \<Rightarrow> bool" where
  "r_is_function x = (r_typeof x = r_type_closure)"

text \<open>
  Modelled from the spec: \<open>r_is_formula\<close> is not in \<open>src/\<close>. A formula shorthand is a
  call of the symbol \<open>~\<close>; the lengths \<open>-1\<close> of the call at line 84 put no further
  condition.
\<close>

fun r_is_formula :: "sexp \<Rightarrow> bool" where
  "r_is_formula (LANGSXP (Node tag car cdr) a) = (car = SYMSXP ''~'')"
| "r_is_formula x = False"

text \<open>\<open>KEEP_N x n_kept\<close> pushes \<open>x\<close> and counts it in \<open>n_kept\<close>.\<close>

definition KEEP_N :: "sexp \<Rightarrow> pstack \<times> nat \<Rightarrow> pstack \<times> nat" where
  "KEEP_N x k = (KEEP x (fst k), Suc (snd k))"

text \<open>The result of a call of the evaluator, with the stack as it is at the call.\<close>

definition evaluated :: "'e + sexp \<Rightarrow> pstack \<Rightarrow> 'e result" where
  "evaluated r st = (case r of Inl e \<Rightarrow> (Inl (Propagated e), st) | Inr v \<Rightarrow> (Inr v, st))"

text \<open>Lines 111-122: the call \<open>.fn(.x, ...)\<close>, with the dots as the rest of its cells.\<close>

definition fn_call :: "sexp \<Rightarrow> sexp" where
  "fn_call dots = r_new_call r_dot_fn_sym (r_new_node r_dot_x_sym dots)"

definition r_fn_eval_in_with_x_dots ::
  "'e host \<Rightarrow> sexp \<Rightarrow> sexp \<Rightarrow> sexp \<Rightarrow> sexp \<Rightarrow> pstack \<Rightarrow> 'e result" where
  "r_fn_eval_in_with_x_dots h fn x dots env st =
     (let args = r_new_node r_dot_x_sym dots;
          st1 = KEEP args st;
          call = r_new_call r_dot_fn_sym args;
          st2 = KEEP call st1
      in case r_eval_in_with_xy h call env x r_dot_x_sym fn r_dot_fn_sym of
           Inl e \<Rightarrow> (Inl (Propagated e), st2)
         | Inr out \<Rightarrow> (Inr out, FREE 2 st2))"

definition r_c_eval_in_with_x_dots ::
  "'e host \<Rightarrow> sexp \<Rightarrow> sexp \<Rightarrow> sexp \<Rightarrow> pstack \<Rightarrow> 'e result" where
  "r_c_eval_in_with_x_dots h x dots env st = r_fn_eval_in_with_x_dots h (c_fn h) x dots env st"

text \<open>
  Lines 85-89: the argument of a function-valued \<open>nm\<close>, from the mold. \<open>k\<close> is the stack
  and \<open>n_kept\<close>.
\<close>

definition mold_argument ::
  "'e host \<Rightarrow> sexp \<Rightarrow> sexp \<Rightarrow> pstack \<times> nat \<Rightarrow> ('e error + sexp) \<times> pstack \<times> nat" where
  "mold_argument h mold env k =
     (case (if r_is_null (r_names mold) then evaluated (r_as_character h mold env) (fst k)
            else rlang_names2 h mold env (fst k)) of
        (Inl e, st) \<Rightarrow> (Inl e, st, snd k)
      | (Inr mold1, st) \<Rightarrow> (Inr mold1, KEEP_N mold1 (st, snd k)))"

text \<open>Lines 84-92: the candidate names of a function-valued \<open>nm\<close>.\<close>

definition function_candidate ::
  "'e host \<Rightarrow> sexp \<Rightarrow> sexp \<Rightarrow> sexp \<Rightarrow> sexp \<Rightarrow> pstack \<times> nat \<Rightarrow>
     ('e error + sexp) \<times> pstack \<times> nat" where
  "function_candidate h mold nm dots env k =
     (case mold_argument h mold env k of
        (Inl e, k1) \<Rightarrow> (Inl e, k1)
      | (Inr mold1, k1) \<Rightarrow>
          (case r_as_function h nm env of
             Inl e \<Rightarrow> (Inl (Propagated e), k1)
           | Inr nm1 \<Rightarrow>
               let k2 = KEEP_N nm1 k1 in
               (case r_fn_eval_in_with_x_dots h nm1 mold1 dots env (fst k2) of
                  (Inl e, st) \<Rightarrow> (Inl e, st, snd k2)
                | (Inr nm2, st) \<Rightarrow> (Inr nm2, KEEP_N nm2 (st, snd k2)))))"

text \<open>Lines 93-99: the candidate names of a direct \<open>nm\<close>.\<close>

definition direct_candidate ::
  "'e host \<Rightarrow> sexp \<Rightarrow> sexp \<Rightarrow> sexp \<Rightarrow> pstack \<times> nat \<Rightarrow> ('e error + sexp) \<times> pstack \<times> nat" where
  "direct_candidate h nm dots env k =
     (case (if r_length dots > 0 then
              (case r_c_eval_in_with_x_dots h nm dots env (fst k) of
                 (Inl e, st) \<Rightarrow> (Inl e, st, snd k)
               | (Inr nm1, st) \<Rightarrow> (Inr nm1, KEEP_N nm1 (st, snd k)))
            else (Inr nm, k)) of
        (Inl e, k1) \<Rightarrow> (Inl e, k1)
      | (Inr nm1, k1) \<Rightarrow>
          (case r_as_character h nm1 env of
             Inl e \<Rightarrow> (Inl (Propagated e), k1)
           | Inr nm2 \<Rightarrow> (Inr nm2, KEEP_N nm2 k1)))"

text \<open>Lines 84-99: the strategy of a \<open>nm\<close> that is not \<open>r_null\<close>.\<close>

definition candidate ::
  "'e host \<Rightarrow> sexp \<Rightarrow> sexp \<Rightarrow> sexp \<Rightarrow> sexp \<Rightarrow> pstack \<times> nat \<Rightarrow>
     ('e error + sexp) \<times> pstack \<times> nat" where
  "candidate h mold nm dots env k =
     (if r_is_function nm \<or> r_is_formula nm then function_candidate h mold nm dots env k
      else direct_candidate h nm dots env k)"

text \<open>The dots of the environment as a value: a pairlist, or \<open>r_null\<close>.\<close>

definition dots_value :: "node option \<Rightarrow> sexp" where
  "dots_value d = (case d of None \<Rightarrow> r_null | Some n \<Rightarrow> LISTSXP n no_attrib)"

definition rlang_set_names ::
  "'e host \<Rightarrow> sexp \<Rightarrow> sexp \<Rightarrow> sexp \<Rightarrow> sexp \<Rightarrow> pstack \<Rightarrow> 'e result" where
  "rlang_set_names h x mold nm env st =
     (let dots = dots_value (rlang_dots h env);
          k = KEEP_N dots (st, 0)
      in if \<not> r_is_vector x then (Inl type_error, fst k)
         else if nm = r_null then
           (case r_set_names_dispatch h x r_null env of
              Inl e \<Rightarrow> (Inl (Propagated e), fst k)
            | Inr x1 \<Rightarrow> (Inr x1, FREE (snd k) (fst k)))
         else
           (case candidate h mold nm dots env k of
              (Inl e, k1) \<Rightarrow> (Inl e, fst k1)
            | (Inr nm1, k1) \<Rightarrow>
                if \<not> r_is_character nm1 (r_length x) then (Inl mismatch_error, fst k1)
                else
                  (case r_set_names_dispatch h x nm1 env of
                     Inl e \<Rightarrow> (Inl (Propagated e), fst k1)
                   | Inr x1 \<Rightarrow> (Inr x1, FREE (snd k1) (fst k1)))))"

subsection \<open>The spec's words\<close>

text \<open>
  The names of linked cells as the spec gives them: the cells in order, the empty string
  for a cell without a tag and the text of the tag otherwise.
\<close>

fun node_tag_names :: "node \<Rightarrow> rstr list" where
  "node_tag_names (Node tag a d) =
     (case tag of None \<Rightarrow> r_empty_str | Some s \<Rightarrow> Str s) #
     (case d of None \<Rightarrow> [] | Some n \<Rightarrow> node_tag_names n)"

definition cells_length :: "node option \<Rightarrow> nat" where
  "cells_length d = (case d of None \<Rightarrow> 0 | Some n \<Rightarrow> node_length n)"

definition cells_names :: "node option \<Rightarrow> rstr list" where
  "cells_names d = (case d of None \<Rightarrow> [] | Some n \<Rightarrow> node_tag_names n)"

text \<open>Every missing string replaced by the empty string, order and length kept.\<close>

definition replace_missing :: "rstr list \<Rightarrow> rstr list" where
  "replace_missing ns = map (\<lambda>s. if s = NA_STRING then r_empty_str else s) ns"

text \<open>
  Modelled from the spec: the default assignment of names is done by the evaluator
  (\<open>names<-\<close>), not by the file. \<open>with_names x ns\<close> is \<open>x\<close> with the \<open>names\<close>
  attribute \<open>ns\<close> (none when \<open>ns\<close> is \<open>None\<close>) and nothing else changed.
\<close>

fun with_names :: "sexp \<Rightarrow> rstr list option \<Rightarrow> sexp" where
  "with_names NILSXP ns = NILSXP"
| "with_names (SYMSXP s) ns = SYMSXP s"
| "with_names (LISTSXP n a) ns = LISTSXP n (a\<lparr>attr_names := ns\<rparr>)"
| "with_names (LANGSXP n a) ns = LANGSXP n (a\<lparr>attr_names := ns\<rparr>)"
| "with_names (CLOSXP f a) ns = CLOSXP f (a\<lparr>attr_names := ns\<rparr>)"
| "with_names (ENVSXP e a) ns = ENVSXP e (a\<lparr>attr_names := ns\<rparr>)"
| "with_names (LGLSXP xs a) ns = LGLSXP xs (a\<lparr>attr_names := ns\<rparr>)"
| "with_names (INTSXP xs a) ns = INTSXP xs (a\<lparr>attr_names := ns\<rparr>)"
| "with_names (STRSXP xs a) ns = STRSXP xs (a\<lparr>attr_names := ns\<rparr>)"
| "with_names (VECSXP xs a) ns = VECSXP xs (a\<lparr>attr_names := ns\<rparr>)"

subsection \<open>An evaluator for the examples\<close>

text \<open>
  A small evaluator, enough to run the file on concrete values: \<open>as.character\<close> of a
  character or integer vector, the default \<open>names\<close> and \<open>names<-\<close>, \<open>as_function\<close> of
  a closure, and two closures: closure 0 is \<open>c\<close> on character vectors, closure 1 returns
  its first argument.
\<close>

function show_nat :: "nat \<Rightarrow> string" where
  "show_nat n =
     (if n < 10 then [''0123456789'' ! n]
      else show_nat (n div 10) @ [''0123456789'' ! (n mod 10)])"
  by pat_completeness auto
termination
  by (relation "measure id") auto

declare show_nat.simps [simp del]

definition show_int :: "int \<Rightarrow> string" where
  "show_int i = (if i < 0 then CHR ''-'' # show_nat (nat (- i)) else show_nat (nat i))"

fun demo_as_character :: "sexp \<Rightarrow> string + sexp" where
  "demo_as_character (STRSXP xs a) = Inr (STRSXP xs no_attrib)"
| "demo_as_character (INTSXP xs a) =
     Inr (STRSXP (map (\<lambda>v. case v of None \<Rightarrow> NA_STRING | Some i \<Rightarrow> Str (show_int i)) xs)
            no_attrib)"
| "demo_as_character x = Inl ''cannot coerce to character''"

fun call_head :: "sexp \<Rightarrow> string" where
  "call_head (LANGSXP (Node tag (SYMSXP s) d) a) = s"
| "call_head x = []"

fun call_dots :: "sexp \<Rightarrow> node option" where
  "call_dots (LANGSXP (Node tag f (Some (Node tag1 x d))) a) = d"
| "call_dots x = None"

fun node_strings :: "node \<Rightarrow> rstr list" where
  "node_strings (Node tag car d) =
     (case car of STRSXP xs a \<Rightarrow> xs | _ \<Rightarrow> []) @
     (case d of None \<Rightarrow> [] | Some n \<Rightarrow> node_strings n)"

definition demo_call :: "sexp \<Rightarrow> sexp \<Rightarrow> node option \<Rightarrow> string + sexp" where
  "demo_call fn x rest =
     (if fn = CLOSXP 0 no_attrib then
        (case x of
           STRSXP xs a \<Rightarrow>
             Inr (STRSXP (xs @ (case rest of None \<Rightarrow> [] | Some n \<Rightarrow> node_strings n)) no_attrib)
         | _ \<Rightarrow> Inl ''c: not a character vector'')
      else if fn = CLOSXP 1 no_attrib then Inr x
      else Inl ''could not find function'')"

definition demo_eval_x :: "sexp \<Rightarrow> sexp \<Rightarrow> sexp \<Rightarrow> sexp \<Rightarrow> string + sexp" where
  "demo_eval_x call env x xsym =
     (if call_head call = ''as.character'' then demo_as_character x
      else if call_head call = ''names'' then Inr (r_names x)
      else if call_head call = ''as_function'' then
        (if r_is_function x then Inr x else Inl ''cannot convert to function'')
      else Inl ''could not find function'')"

definition demo_eval_xy ::
  "sexp \<Rightarrow> sexp \<Rightarrow> sexp \<Rightarrow> sexp \<Rightarrow> sexp \<Rightarrow> sexp \<Rightarrow> string + sexp" where
  "demo_eval_xy call env x xsym y ysym =
     (if call_head call = ''names<-'' then
        (case y of
           NILSXP \<Rightarrow> Inr (with_names x None)
         | STRSXP ns a \<Rightarrow> Inr (with_names x (Some ns))
         | _ \<Rightarrow> Inl ''invalid names'')
      else if call_head call = ''.fn'' then demo_call y x (call_dots call)
      else Inl ''could not find function'')"

text \<open>The evaluator of the examples, in an environment whose dots are \<open>dots\<close>.\<close>

definition demo_host :: "node option \<Rightarrow> string host" where
  "demo_host dots =
     \<lparr>r_eval_in_with_x = demo_eval_x,
      r_eval_in_with_xy = demo_eval_xy,
      rlang_dots = (\<lambda>env. dots),
      c_fn = CLOSXP 0 no_attrib,
      replace_na_other = (\<lambda>x y. Inl ''cannot replace missing values'')\<rparr>"

text \<open>
  The same evaluator with a class whose \<open>names\<close> method answers the one name \<open>a\<close>
  for every object.
\<close>

definition one_name_host :: "string host" where
  "one_name_host =
     (demo_host None)
       \<lparr>r_eval_in_with_x :=
          (\<lambda>call env x s.
             if call_head call = ''names'' \<and> r_is_object x
             then Inr (STRSXP [Str ''a''] no_attrib)
             else demo_eval_x call env x s)\<rparr>"

text \<open>
  The evaluator of the examples with an \<open>as_function\<close> that turns every formula
  shorthand into closure 0.
\<close>

definition formula_host :: "node option \<Rightarrow> string host" where
  "formula_host dots =
     (demo_host dots)
       \<lparr>r_eval_in_with_x :=
          (\<lambda>call env x s.
             if call_head call = ''as_function'' \<and> r_is_formula x
             then Inr (CLOSXP 0 no_attrib)
             else demo_eval_x call env x s)\<rparr>"

definition demo_env :: sexp where
  "demo_env = ENVSXP 0 no_attrib"

section \<open>Verification\<close>

subsection \<open>The walk over the cells\<close>

text \<open>
  The loop of \<open>r_node_names\<close> writes the names of the cells that are left at the indices
  from \<open>i\<close> on and leaves the rest of the output as it is, provided the cells fit.
\<close>

lemma loop_inv:
  "i + cells_length d \<le> length out \<Longrightarrow>
   r_node_names_loop d i out = take i out @ cells_names d @ drop (i + cells_length d) out"
proof (induction d i out rule: r_node_names_loop.induct)
  case (1 i p_out)
  then show ?case by (simp add: cells_length_def cells_names_def)
next
  case (2 tag a d i p_out)
  let ?v = "case tag of None \<Rightarrow> r_empty_str | Some s \<Rightarrow> PRINTNAME s"
  from 2(2) have le: "Suc i + cells_length d \<le> length (p_out[i := ?v])" and i: "i < length p_out"
    by (simp_all add: cells_length_def)
  have "r_node_names_loop (Some (Node tag a d)) i p_out = r_node_names_loop d (Suc i) (p_out[i := ?v])"
    by simp
  also have "\<dots> = take (Suc i) (p_out[i := ?v]) @ cells_names d @ drop (Suc i + cells_length d) (p_out[i := ?v])"
    using 2(1)[OF le] .
  also have "take (Suc i) (p_out[i := ?v]) = take i p_out @ [?v]"
    using i by (simp add: take_Suc_conv_app_nth)
  also have "drop (Suc i + cells_length d) (p_out[i := ?v]) = drop (i + cells_length (Some (Node tag a d))) p_out"
    by (simp add: cells_length_def)
  also have "(take i p_out @ [?v]) @ cells_names d @ drop (i + cells_length (Some (Node tag a d))) p_out
     = take i p_out @ cells_names (Some (Node tag a d)) @ drop (i + cells_length (Some (Node tag a d))) p_out"
    by (simp add: cells_names_def PRINTNAME_def split: option.splits)
  finally show ?case .
qed

lemma length_node_tag_names: "length (node_tag_names n) = node_length n"
  by (induction n rule: node_length.induct) (auto split: option.splits)

lemma NA_notin_node_tag_names: "NA_STRING \<notin> set (node_tag_names n)"
  by (induction n rule: node_length.induct) (auto simp: r_empty_str_def split: option.splits)

lemma r_node_names_eq:
  assumes n: "r_node x = Some n"
  shows "r_node_names x st = (Inr (STRSXP (node_tag_names n) no_attrib), st)"
proof -
  from n have len: "r_length x = node_length n"
    by (cases x) simp_all
  have "r_node_names_loop (Some n) 0 (replicate (node_length n) r_empty_str) = node_tag_names n"
    using loop_inv[of 0 "Some n" "replicate (node_length n) r_empty_str"]
    by (simp add: cells_length_def cells_names_def)
  then show ?thesis
    by (simp add: r_node_names_def r_new_character_def n len KEEP_def FREE_def)
qed

lemma names2_of_node:
  assumes "r_node x = Some n"
  shows "rlang_names2 h x env st = (Inr (STRSXP (node_tag_names n) no_attrib), st)"
proof -
  from assms have "r_typeof x = r_type_pairlist \<or> r_typeof x = r_type_call"
    by (cases x) simp_all
  then show ?thesis
    using r_node_names_eq[OF assms] by (auto simp: rlang_names2_def Let_def)
qed

subsection \<open>The reader on a value without cells\<close>

lemma names2_null_names:
  assumes "r_typeof x \<noteq> r_type_environment" "r_node x = None"
    and "underlying_names h x env = Inr r_null"
  shows "rlang_names2 h x env st = (Inr (STRSXP (replicate (r_length x) r_empty_str) no_attrib), st)"
proof -
  from assms(2) have "r_typeof x \<noteq> r_type_pairlist" "r_typeof x \<noteq> r_type_call"
    by (cases x; simp)+
  then show ?thesis using assms(1,3)
    by (simp add: rlang_names2_def Let_def r_is_null_def r_new_character_def KEEP_def FREE_def)
qed

lemma names2_chr_names:
  assumes "r_typeof x \<noteq> r_type_environment" "r_node x = None"
    and "underlying_names h x env = Inr (STRSXP us b)"
  shows "rlang_names2 h x env st = (Inr (STRSXP (replace_missing us) b), st)"
proof -
  from assms(2) have "r_typeof x \<noteq> r_type_pairlist" "r_typeof x \<noteq> r_type_call"
    by (cases x; simp)+
  then show ?thesis using assms(1,3)
    by (simp add: rlang_names2_def Let_def r_is_null_def r_shared_empty_chr_def
        replace_missing_def KEEP_def FREE_def)
qed

lemma NA_notin_replace_missing: "NA_STRING \<notin> set (replace_missing us)"
  by (auto simp: replace_missing_def r_empty_str_def)

lemma replace_missing_id: "NA_STRING \<notin> set ns \<Longrightarrow> replace_missing ns = ns"
  by (induction ns) (auto simp: replace_missing_def)

lemma with_names_vector:
  assumes "r_is_vector x"
  shows "r_typeof (with_names x ns) = r_typeof x"
    and "r_node (with_names x ns) = None"
    and "r_is_object (with_names x ns) = r_is_object x"
    and "r_names (with_names x (Some us)) = STRSXP us no_attrib"
  using assms by (cases x; simp add: r_is_vector_def r_is_object_def r_names_def)+

subsection \<open>The protection stack along a call\<close>

text \<open>
  A call that returns leaves the stack as it was; a call that aborts leaves on it what it
  kept until then.
\<close>

lemma names2_stack:
  assumes "rlang_names2 h x env st = (r, st')"
  shows "case r of Inr v \<Rightarrow> st' = st | Inl e \<Rightarrow> \<exists>ks. st' = ks @ st \<and> length ks \<le> 1"
proof (cases "r_node x")
  case (Some n)
  with assms show ?thesis by (auto simp: names2_of_node)
next
  case None
  then have t: "r_typeof x \<noteq> r_type_pairlist" "r_typeof x \<noteq> r_type_call"
    by (cases x; simp)+
  show ?thesis
  proof (cases "r_typeof x = r_type_environment")
    case True
    with assms show ?thesis by (auto simp: rlang_names2_def)
  next
    case False
    with assms t show ?thesis
      by (auto simp: rlang_names2_def Let_def KEEP_def FREE_def
          split: sum.splits if_splits intro: exI[where x="[]"] exI[where x="[a]" for a])
  qed
qed

lemma fn_eval_stack:
  assumes "r_fn_eval_in_with_x_dots h fn x dots env st = (r, st')"
  shows "case r of Inr v \<Rightarrow> st' = st | Inl e \<Rightarrow> \<exists>ks. st' = ks @ st \<and> length ks = 2"
  using assms
  by (auto simp: r_fn_eval_in_with_x_dots_def Let_def KEEP_def FREE_def split: sum.splits
      intro: exI[where x="[a, b]" for a b])

lemma mold_argument_stack:
  assumes "mold_argument h mold env (st, n) = (r, st', n')"
  shows "case r of Inr v \<Rightarrow> st' = v # st \<and> n' = Suc n
         | Inl e \<Rightarrow> \<exists>ks. st' = ks @ st \<and> length ks \<le> 1"
proof (cases "r_is_null (r_names mold)")
  case True
  with assms show ?thesis
    by (auto simp: mold_argument_def evaluated_def KEEP_N_def KEEP_def split: sum.splits
        intro: exI[where x="[]"])
next
  case False
  obtain r0 st0 where e: "rlang_names2 h mold env st = (r0, st0)"
    by (cases "rlang_names2 h mold env st")
  from names2_stack[OF e] assms False e show ?thesis
    by (auto simp: mold_argument_def KEEP_N_def KEEP_def split: sum.splits)
qed

lemma function_candidate_stack:
  assumes "function_candidate h mold nm dots env (st, n) = (r, st', n')"
  shows "case r of Inr v \<Rightarrow> \<exists>ks. st' = ks @ st \<and> length ks = 3 \<and> n' = n + 3
         | Inl e \<Rightarrow> \<exists>ks. st' = ks @ st \<and> length ks \<le> 4"
proof -
  obtain r1 st1 n1 where m: "mold_argument h mold env (st, n) = (r1, st1, n1)"
    by (cases "mold_argument h mold env (st, n)")
  note ms = mold_argument_stack[OF m]
  show ?thesis
  proof (cases r1)
    case (Inl e)
    with m ms assms show ?thesis
      by (auto simp: function_candidate_def)
  next
    case (Inr mold1)
    with ms have st1: "st1 = mold1 # st" "n1 = Suc n" by auto
    show ?thesis
    proof (cases "r_as_function h nm env")
      case (Inl e)
      with m Inr st1 assms show ?thesis
        by (auto simp: function_candidate_def intro: exI[where x="[mold1]"])
    next
      case f: (Inr nm1)
      obtain r2 st2 where ev: "r_fn_eval_in_with_x_dots h nm1 mold1 dots env (nm1 # mold1 # st) = (r2, st2)"
        by (cases "r_fn_eval_in_with_x_dots h nm1 mold1 dots env (nm1 # mold1 # st)")
      note es = fn_eval_stack[OF ev]
      show ?thesis
      proof (cases r2)
        case (Inl e)
        with es obtain ks where "st2 = ks @ nm1 # mold1 # st" "length ks = 2" by auto
        then have "st2 = (ks @ [nm1, mold1]) @ st" "length (ks @ [nm1, mold1]) \<le> 4" by auto
        with m Inr st1 f ev Inl assms show ?thesis
          by (auto simp: function_candidate_def Let_def KEEP_N_def KEEP_def)
      next
        case v: (Inr nm2)
        with es have "st2 = nm1 # mold1 # st" by simp
        with m Inr st1 f ev v assms show ?thesis
          by (auto simp: function_candidate_def Let_def KEEP_N_def KEEP_def
              intro: exI[where x="[nm2, nm1, mold1]"])
      qed
    qed
  qed
qed

lemma direct_candidate_stack:
  assumes "direct_candidate h nm dots env (st, n) = (r, st', n')"
  shows "case r of Inr v \<Rightarrow> \<exists>ks. st' = ks @ st \<and> length ks \<le> 2 \<and> n' = n + length ks
         | Inl e \<Rightarrow> \<exists>ks. st' = ks @ st \<and> length ks \<le> 2"
proof (cases "r_length dots > 0")
  case False
  with assms show ?thesis
    by (auto simp: direct_candidate_def KEEP_N_def KEEP_def split: sum.splits
        intro: exI[where x="[]"] exI[where x="[a]" for a])
next
  case True
  obtain r2 st2 where ev: "r_fn_eval_in_with_x_dots h (c_fn h) nm dots env st = (r2, st2)"
    by (cases "r_fn_eval_in_with_x_dots h (c_fn h) nm dots env st")
  note es = fn_eval_stack[OF ev]
  from True ev es assms show ?thesis
    by (auto simp: direct_candidate_def r_c_eval_in_with_x_dots_def KEEP_N_def KEEP_def
        split: sum.splits intro: exI[where x="[a]" for a] exI[where x="[a, b]" for a b])
qed

lemma candidate_stack:
  assumes "candidate h mold nm dots env (st, n) = (r, st', n')"
  shows "case r of Inr v \<Rightarrow> \<exists>ks. st' = ks @ st \<and> length ks \<le> 3 \<and> n' = n + length ks
         | Inl e \<Rightarrow> \<exists>ks. st' = ks @ st \<and> length ks \<le> 4"
proof (cases "r_is_function nm \<or> r_is_formula nm")
  case True
  with assms have "function_candidate h mold nm dots env (st, n) = (r, st', n')"
    by (simp add: candidate_def)
  from function_candidate_stack[OF this] show ?thesis
    by (auto split: sum.splits)
next
  case False
  with assms have "direct_candidate h nm dots env (st, n) = (r, st', n')"
    by (simp add: candidate_def)
  from direct_candidate_stack[OF this] show ?thesis
    by (fastforce split: sum.splits)
qed

lemma set_names_stack:
  assumes "rlang_set_names h x mold nm env st = (r, st')"
  shows "case r of Inr v \<Rightarrow> st' = st
         | Inl e \<Rightarrow> \<exists>ks. st' = ks @ st \<and> 1 \<le> length ks \<and> length ks \<le> 5"
proof -
  let ?d = "dots_value (rlang_dots h env)"
  show ?thesis
  proof (cases "\<not> r_is_vector x \<or> nm = r_null")
    case True
    with assms show ?thesis
      by (auto simp: rlang_set_names_def Let_def KEEP_N_def KEEP_def FREE_def
          split: sum.splits if_splits intro: exI[where x="[?d]"])
  next
    case False
    obtain r1 st1 n1 where c: "candidate h mold nm ?d env (?d # st, Suc 0) = (r1, st1, n1)"
      by (cases "candidate h mold nm ?d env (?d # st, Suc 0)")
    note cs = candidate_stack[OF c]
    show ?thesis
    proof (cases r1)
      case (Inl e)
      with cs obtain ks where ks: "st1 = ks @ ?d # st" "length ks \<le> 4" by auto
      then have "st1 = (ks @ [?d]) @ st" "1 \<le> length (ks @ [?d])" "length (ks @ [?d]) \<le> 5"
        by auto
      with False c Inl assms show ?thesis
        by (auto simp: rlang_set_names_def Let_def KEEP_N_def KEEP_def)
    next
      case (Inr nm1)
      with cs obtain ks where ks: "st1 = ks @ ?d # st" "length ks \<le> 3" "n1 = Suc (length ks)"
        by auto
      from ks have f: "FREE n1 st1 = st"
        by (simp add: FREE_def)
      from False c Inr assms
      have r: "(r, st') =
          (if \<not> r_is_character nm1 (r_length x) then (Inl mismatch_error, st1)
           else (case r_set_names_dispatch h x nm1 env of
                   Inl e \<Rightarrow> (Inl (Propagated e), st1)
                 | Inr x1 \<Rightarrow> (Inr x1, FREE n1 st1)))"
        by (auto simp: rlang_set_names_def Let_def KEEP_N_def KEEP_def split: if_splits sum.splits)
      have e: "\<exists>ks. st1 = ks @ st \<and> 1 \<le> length ks \<and> length ks \<le> 5"
        using ks by (intro exI[where x="ks @ [?d]"]) simp
      from r e f show ?thesis
        by (auto split: if_splits sum.splits)
    qed
  qed
qed

subsection \<open>The value of a call\<close>

text \<open>
  The value of a call does not depend on the protection stack.
\<close>

lemma names2_value: "fst (rlang_names2 h x env st) = fst (rlang_names2 h x env st')"
  by (simp add: rlang_names2_def r_node_names_def Let_def split: sum.splits)

lemma fn_eval_value:
  "fst (r_fn_eval_in_with_x_dots h fn x dots env st) =
     (case r_eval_in_with_xy h (fn_call dots) env x r_dot_x_sym fn r_dot_fn_sym of
        Inl e \<Rightarrow> Inl (Propagated e) | Inr v \<Rightarrow> Inr v)"
  by (simp add: r_fn_eval_in_with_x_dots_def fn_call_def Let_def split: sum.splits)

lemma function_candidate_value:
  assumes f: "r_as_function h nm env = Inr f"
    and a1: "r_is_null (r_names mold) \<Longrightarrow> r_as_character h mold env = Inr arg"
    and a2: "\<not> r_is_null (r_names mold) \<Longrightarrow> fst (rlang_names2 h mold env st0) = Inr arg"
  shows "fst (function_candidate h mold nm dots env k) =
     (case r_eval_in_with_xy h (fn_call dots) env arg r_dot_x_sym f r_dot_fn_sym of
        Inl e \<Rightarrow> Inl (Propagated e) | Inr v \<Rightarrow> Inr v)"
proof -
  have m: "fst (mold_argument h mold env k) = Inr arg"
  proof (cases "r_is_null (r_names mold)")
    case True
    with a1 show ?thesis
      by (simp add: mold_argument_def evaluated_def)
  next
    case False
    with a2 have "fst (rlang_names2 h mold env (fst k)) = Inr arg"
      using names2_value[of h mold env "fst k" st0] by simp
    with False show ?thesis
      by (auto simp: mold_argument_def split: prod.splits sum.splits)
  qed
  then obtain k1 where "mold_argument h mold env k = (Inr arg, k1)"
    by (cases "mold_argument h mold env k") auto
  then show ?thesis
    using f fn_eval_value[of h f arg dots env "fst (KEEP_N f k1)"]
    by (auto simp: function_candidate_def Let_def split: prod.splits sum.splits)
qed

lemma direct_candidate_value:
  "fst (direct_candidate h nm dots env k) =
     (if r_length dots > 0 then
        (case r_eval_in_with_xy h (fn_call dots) env nm r_dot_x_sym (c_fn h) r_dot_fn_sym of
           Inl e \<Rightarrow> Inl (Propagated e)
         | Inr v \<Rightarrow> (case r_as_character h v env of
                        Inl e \<Rightarrow> Inl (Propagated e) | Inr c \<Rightarrow> Inr c))
      else (case r_as_character h nm env of Inl e \<Rightarrow> Inl (Propagated e) | Inr c \<Rightarrow> Inr c))"
  using fn_eval_value[of h "c_fn h" nm dots env "fst k"]
  by (auto simp: direct_candidate_def r_c_eval_in_with_x_dots_def split: prod.splits sum.splits)

lemma set_names_value:
  assumes "r_is_vector x" "nm \<noteq> r_null"
  shows "fst (rlang_set_names h x mold nm env st) =
     (case fst (candidate h mold nm (dots_value (rlang_dots h env)) env
                 (KEEP_N (dots_value (rlang_dots h env)) (st, 0))) of
        Inl e \<Rightarrow> Inl e
      | Inr c \<Rightarrow>
          if r_is_character c (r_length x)
          then (case r_set_names_dispatch h x c env of
                  Inl e \<Rightarrow> Inl (Propagated e) | Inr y \<Rightarrow> Inr y)
          else Inl mismatch_error)"
  using assms
  by (auto simp: rlang_set_names_def Let_def split: prod.splits sum.splits)

text \<open>
  The call templates and the call of a function-valued \<open>nm\<close>, written out.
\<close>

lemma templates:
  "as_character_call =
     LANGSXP (Node None (SYMSXP ''as.character'') (Some (Node None (SYMSXP ''.x'') None))) no_attrib"
  "names_call =
     LANGSXP (Node None (SYMSXP ''names'') (Some (Node None (SYMSXP ''.x'') None))) no_attrib"
  "as_function_call =
     LANGSXP (Node None (SYMSXP ''as_function'') (Some (Node None (SYMSXP ''.x'') None))) no_attrib"
  "set_names_call =
     LANGSXP (Node None (SYMSXP ''names<-'')
       (Some (Node None (SYMSXP ''.x'') (Some (Node None (SYMSXP ''.y'') None))))) no_attrib"
  "fn_call (dots_value d) =
     LANGSXP (Node None (SYMSXP ''.fn'') (Some (Node None (SYMSXP ''.x'') d))) no_attrib"
  by (simp_all add: as_character_call_def names_call_def as_function_call_def set_names_call_def
      fn_call_def r_new_call_def r_new_node_def r_dot_x_sym_def r_dot_y_sym_def r_dot_fn_sym_def
      dots_value_def split: option.splits)

subsection \<open>The reader\<close>

text \<open>
  Claim C1 as stated fails: for an object, the names come from the \<open>names\<close> generic and
  their length is not checked against the element count. An integer vector of three
  elements whose class has a \<open>names\<close> method that answers one name gets a name vector of
  length one.
\<close>

theorem read_names_length_counterexample:
  "r_typeof (INTSXP [Some 1, Some 2, Some 3] \<lparr>attr_names = None, attr_object = True\<rparr>)
     \<noteq> r_type_environment \<and>
   rlang_names2 one_name_host
     (INTSXP [Some 1, Some 2, Some 3] \<lparr>attr_names = None, attr_object = True\<rparr>) demo_env []
     = (Inr (STRSXP [Str ''a''] no_attrib), []) \<and>
   r_length (INTSXP [Some 1, Some 2, Some 3] \<lparr>attr_names = None, attr_object = True\<rparr>) = 3"
  by (simp add: rlang_names2_def underlying_names_def r_is_object_def r_names_dispatch_def
      one_name_host_def names_call_def r_new_call_def r_is_null_def r_shared_empty_chr_def
      KEEP_def FREE_def)

text \<open>
  Claim C1, amended. For every value \<open>x\<close> that is not an environment, \<open>rlang_names2\<close>
  returns a character vector without missing strings and leaves the stack as it was:
  the tag names of a pairlist or call, of the length of \<open>x\<close>; a vector of empty strings
  of the length of \<open>x\<close> when the underlying names are absent; and otherwise, when the
  underlying names are a character vector, these names with every missing string replaced
  by the empty string, order and length kept. The length is then that of the underlying
  names: it is the element count of \<open>x\<close> when they have that length, which the
  \<open>names\<close> method of an object need not respect.
\<close>

theorem read_names_total:
  assumes "r_typeof x \<noteq> r_type_environment"
  shows "(\<forall>n. r_node x = Some n \<longrightarrow>
            rlang_names2 h x env st = (Inr (STRSXP (node_tag_names n) no_attrib), st) \<and>
            length (node_tag_names n) = r_length x \<and>
            NA_STRING \<notin> set (node_tag_names n)) \<and>
         (r_node x = None \<and> underlying_names h x env = Inr r_null \<longrightarrow>
            rlang_names2 h x env st =
              (Inr (STRSXP (replicate (r_length x) r_empty_str) no_attrib), st)) \<and>
         (\<forall>us b. r_node x = None \<and> underlying_names h x env = Inr (STRSXP us b) \<longrightarrow>
            rlang_names2 h x env st = (Inr (STRSXP (replace_missing us) b), st) \<and>
            length (replace_missing us) = length us \<and>
            NA_STRING \<notin> set (replace_missing us) \<and>
            (\<forall>i<length us. replace_missing us ! i =
               (if us ! i = NA_STRING then r_empty_str else us ! i)))"
proof (intro conjI allI impI)
  fix n assume n: "r_node x = Some n"
  show "rlang_names2 h x env st = (Inr (STRSXP (node_tag_names n) no_attrib), st)"
    using n by (rule names2_of_node)
  from n show "length (node_tag_names n) = r_length x"
    by (cases x) (simp_all add: length_node_tag_names)
  show "NA_STRING \<notin> set (node_tag_names n)"
    by (rule NA_notin_node_tag_names)
next
  assume "r_node x = None \<and> underlying_names h x env = Inr r_null"
  then show "rlang_names2 h x env st =
      (Inr (STRSXP (replicate (r_length x) r_empty_str) no_attrib), st)"
    using assms by (simp add: names2_null_names)
next
  fix us b assume "r_node x = None \<and> underlying_names h x env = Inr (STRSXP us b)"
  then show "rlang_names2 h x env st = (Inr (STRSXP (replace_missing us) b), st)"
    using assms by (simp add: names2_chr_names)
next
  fix us :: "rstr list"
  show "length (replace_missing us) = length us"
    by (simp add: replace_missing_def)
  show "NA_STRING \<notin> set (replace_missing us)"
    by (rule NA_notin_replace_missing)
  fix i assume "i < length us"
  then show "replace_missing us ! i = (if us ! i = NA_STRING then r_empty_str else us ! i)"
    by (simp add: replace_missing_def)
qed

text \<open>
  A vector with the names \<open>["a", NA, "c"]\<close> and a vector without names.
\<close>

theorem read_names_total_witness:
  "r_typeof (INTSXP [Some 1, Some 2, Some 3]
      \<lparr>attr_names = Some [Str ''a'', NA_STRING, Str ''c''], attr_object = False\<rparr>)
     \<noteq> r_type_environment \<and>
   rlang_names2 (demo_host None)
     (INTSXP [Some 1, Some 2, Some 3]
        \<lparr>attr_names = Some [Str ''a'', NA_STRING, Str ''c''], attr_object = False\<rparr>)
     demo_env []
   = (Inr (STRSXP [Str ''a'', r_empty_str, Str ''c''] no_attrib), []) \<and>
   rlang_names2 (demo_host None) (INTSXP [Some 1, Some 2] no_attrib) demo_env []
   = (Inr (STRSXP [r_empty_str, r_empty_str] no_attrib), [])"
proof -
  let ?x = "INTSXP [Some 1, Some 2, Some 3]
      \<lparr>attr_names = Some [Str ''a'', NA_STRING, Str ''c''], attr_object = False\<rparr>"
  let ?y = "INTSXP [Some 1, Some 2] no_attrib"
  have t: "r_typeof ?x \<noteq> r_type_environment" "r_typeof ?y \<noteq> r_type_environment"
    by simp_all
  have u: "r_node ?x = None"
      "underlying_names (demo_host None) ?x demo_env
         = Inr (STRSXP [Str ''a'', NA_STRING, Str ''c''] no_attrib)"
      "r_node ?y = None" "underlying_names (demo_host None) ?y demo_env = Inr r_null"
    by (simp_all add: underlying_names_def r_is_object_def r_names_def no_attrib_def)
  have r: "replace_missing [Str ''a'', NA_STRING, Str ''c''] = [Str ''a'', r_empty_str, Str ''c'']"
    by (simp add: replace_missing_def)
  show ?thesis
    using t u r read_names_total [OF t(1), of "demo_host None" demo_env "[]"]
      read_names_total [OF t(2), of "demo_host None" demo_env "[]"]
    by (simp add: numeral_2_eq_2)
qed

text \<open>
  Claim C4. \<open>rlang_names2\<close> on an environment fails at once with the usage error, with
  the protection stack untouched and without a call of the evaluator, whatever the
  attributes of the environment (its object bit) and whatever the evaluator would answer;
  on a value of any other type the result is never the usage error.
\<close>

theorem read_names_environment:
  "(r_typeof x = r_type_environment \<longrightarrow> rlang_names2 h x env st = (Inl usage_error, st)) \<and>
   (r_typeof x \<noteq> r_type_environment \<longrightarrow> fst (rlang_names2 h x env st) \<noteq> Inl usage_error)"
proof (intro conjI impI)
  assume "r_typeof x = r_type_environment"
  then show "rlang_names2 h x env st = (Inl usage_error, st)"
    by (simp add: rlang_names2_def)
next
  assume ne: "r_typeof x \<noteq> r_type_environment"
  show "fst (rlang_names2 h x env st) \<noteq> Inl usage_error"
  proof (cases "r_node x")
    case (Some n)
    then show ?thesis by (simp add: names2_of_node)
  next
    case None
    then have "r_typeof x \<noteq> r_type_pairlist" "r_typeof x \<noteq> r_type_call"
      by (cases x; simp)+
    with ne show ?thesis
      by (simp add: rlang_names2_def Let_def usage_error_def split: sum.splits)
  qed
qed

text \<open>
  An environment with the object bit set, under an evaluator that has a \<open>names\<close> method
  for objects, and a symbol.
\<close>

theorem read_names_environment_witness:
  "r_typeof (ENVSXP 3 \<lparr>attr_names = None, attr_object = True\<rparr>) = r_type_environment \<and>
   rlang_names2 one_name_host (ENVSXP 3 \<lparr>attr_names = None, attr_object = True\<rparr>) demo_env []
     = (Inl usage_error, []) \<and>
   r_typeof (SYMSXP ''a'') \<noteq> r_type_environment \<and>
   fst (rlang_names2 one_name_host (SYMSXP ''a'') demo_env []) \<noteq> Inl usage_error"
  using read_names_environment [of "ENVSXP 3 \<lparr>attr_names = None, attr_object = True\<rparr>" one_name_host demo_env "[]"]
    read_names_environment [of "SYMSXP ''a''" one_name_host demo_env "[]"]
  by simp

text \<open>
  Claim C5. On a pairlist or a call, \<open>rlang_names2\<close> returns the names of the cells in
  order, the empty string for a cell without a tag and the text of the tag otherwise; the
  length of the result is the number of cells, which is the element count of the input.
\<close>

theorem read_names_structural:
  assumes "x = LISTSXP n a \<or> x = LANGSXP n a"
  shows "rlang_names2 h x env st = (Inr (STRSXP (node_tag_names n) no_attrib), st) \<and>
         length (node_tag_names n) = node_length n \<and> r_length x = node_length n"
proof -
  from assms have "r_node x = Some n" "r_length x = node_length n"
    by auto
  then show ?thesis
    by (simp add: names2_of_node length_node_tag_names)
qed

text \<open>
  The cells \<open>[(tag = a, _), (no tag, _), (tag = b, _)]\<close> give \<open>["a", "", "b"]\<close>.
\<close>

theorem read_names_structural_witness:
  "rlang_names2 (demo_host None)
     (LISTSXP (Node (Some ''a'') (INTSXP [Some 1] no_attrib)
        (Some (Node None NILSXP (Some (Node (Some ''b'') (SYMSXP ''y'') None))))) no_attrib)
     demo_env []
   = (Inr (STRSXP [Str ''a'', r_empty_str, Str ''b''] no_attrib), [])"
  using read_names_structural [of
      "LISTSXP (Node (Some ''a'') (INTSXP [Some 1] no_attrib)
        (Some (Node None NILSXP (Some (Node (Some ''b'') (SYMSXP ''y'') None))))) no_attrib"
      "Node (Some ''a'') (INTSXP [Some 1] no_attrib)
        (Some (Node None NILSXP (Some (Node (Some ''b'') (SYMSXP ''y'') None))))"
      no_attrib "demo_host None" demo_env "[]"]
  by simp

subsection \<open>The writer\<close>

text \<open>
  Claim C2. For a vector \<open>x\<close> and a \<open>nm\<close> that is not \<open>r_null\<close>: on the path of a
  function-valued \<open>nm\<close> and on the path of a direct \<open>nm\<close> alike, a candidate that is
  not a character vector of the length of \<open>x\<close> makes the call fail with the mismatch
  error; and every call that returns a value returns what the assignment template gives
  for a candidate that has passed this check, so that the check is the last gate before
  the assignment.
\<close>

theorem write_names_final_gate:
  assumes "r_is_vector x" and "nm \<noteq> r_null"
    and "dots = dots_value (rlang_dots h env)"
  shows "(\<forall>c k1. (r_is_function nm \<or> r_is_formula nm) \<and>
                 function_candidate h mold nm dots env (KEEP_N dots (st, 0)) = (Inr c, k1) \<and>
                 \<not> r_is_character c (r_length x) \<longrightarrow>
            rlang_set_names h x mold nm env st = (Inl mismatch_error, fst k1)) \<and>
         (\<forall>c k1. \<not> (r_is_function nm \<or> r_is_formula nm) \<and>
                 direct_candidate h nm dots env (KEEP_N dots (st, 0)) = (Inr c, k1) \<and>
                 \<not> r_is_character c (r_length x) \<longrightarrow>
            rlang_set_names h x mold nm env st = (Inl mismatch_error, fst k1)) \<and>
         (\<forall>y st'. rlang_set_names h x mold nm env st = (Inr y, st') \<longrightarrow>
            (\<exists>c k1. candidate h mold nm dots env (KEEP_N dots (st, 0)) = (Inr c, k1) \<and>
                     r_is_character c (r_length x) \<and>
                     r_set_names_dispatch h x c env = Inr y))"
  using assms
  by (auto simp: rlang_set_names_def candidate_def Let_def
      split: sum.splits prod.splits if_splits)

text \<open>
  A function whose result has two names, a direct \<open>nm\<close> of one name and a direct
  \<open>nm\<close> of three names, for an \<open>x\<close> of three elements.
\<close>

theorem write_names_final_gate_witness:
  "rlang_set_names (demo_host None) (INTSXP [Some 1, Some 2, Some 3] no_attrib)
     (INTSXP [Some 10, Some 20] no_attrib) (CLOSXP 1 no_attrib) demo_env []
   = (Inl mismatch_error,
      [STRSXP [Str ''10'', Str ''20''] no_attrib, CLOSXP 1 no_attrib,
       STRSXP [Str ''10'', Str ''20''] no_attrib, r_null]) \<and>
   rlang_set_names (demo_host None) (INTSXP [Some 1, Some 2, Some 3] no_attrib)
     r_null (STRSXP [Str ''a''] no_attrib) demo_env []
   = (Inl mismatch_error, [STRSXP [Str ''a''] no_attrib, r_null]) \<and>
   (\<exists>c k1. candidate (demo_host None) r_null (STRSXP [Str ''a'', Str ''b'', Str ''c''] no_attrib)
              r_null demo_env (KEEP_N r_null ([], 0)) = (Inr c, k1) \<and>
            r_is_character c (r_length (INTSXP [Some 1, Some 2, Some 3] no_attrib)) \<and>
            r_set_names_dispatch (demo_host None) (INTSXP [Some 1, Some 2, Some 3] no_attrib) c
              demo_env
            = Inr (INTSXP [Some 1, Some 2, Some 3]
                     \<lparr>attr_names = Some [Str ''a'', Str ''b'', Str ''c''],
                        attr_object = False\<rparr>))"
proof -
  let ?h = "demo_host None :: string host"
  let ?x = "INTSXP [Some 1, Some 2, Some 3] no_attrib"
  let ?m = "INTSXP [Some 10, Some 20] no_attrib"
  let ?c = "STRSXP [Str ''10'', Str ''20''] no_attrib"
  let ?a = "STRSXP [Str ''a''] no_attrib"
  let ?abc = "STRSXP [Str ''a'', Str ''b'', Str ''c''] no_attrib"
  let ?y = "INTSXP [Some 1, Some 2, Some 3]
      \<lparr>attr_names = Some [Str ''a'', Str ''b'', Str ''c''], attr_object = False\<rparr>"
  have v: "r_is_vector ?x" by (simp add: r_is_vector_def)
  have n: "CLOSXP 1 no_attrib \<noteq> r_null" "?a \<noteq> r_null" "?abc \<noteq> r_null" by simp_all
  have d: "r_null = dots_value (rlang_dots ?h demo_env)"
    by (simp add: dots_value_def demo_host_def)
  have p: "r_is_function (CLOSXP 1 no_attrib) \<or> r_is_formula (CLOSXP 1 no_attrib)"
    "\<not> (r_is_function ?a \<or> r_is_formula ?a)"
    by (simp_all add: r_is_function_def)
  have c1: "function_candidate ?h ?m (CLOSXP 1 no_attrib) r_null demo_env (KEEP_N r_null ([], 0))
      = (Inr ?c, [?c, CLOSXP 1 no_attrib, ?c, r_null], 4)"
    by code_simp
  have c2: "direct_candidate ?h ?a r_null demo_env (KEEP_N r_null ([], 0))
      = (Inr ?a, [?a, r_null], 2)"
    by code_simp
  have g: "\<not> r_is_character ?c (r_length ?x)" "\<not> r_is_character ?a (r_length ?x)"
    by (simp_all add: r_is_character_def)
  have ok: "rlang_set_names ?h ?x r_null ?abc demo_env [] = (Inr ?y, [])"
    by code_simp
  show ?thesis
    using write_names_final_gate [OF v n(1) d, of ?m "[]"]
      write_names_final_gate [OF v n(2) d, of r_null "[]"]
      write_names_final_gate [OF v n(3) d, of r_null "[]"] p c1 c2 g ok
    by simp
qed

text \<open>
  Claim C3 as stated fails when there are dots: a direct \<open>nm\<close> is first concatenated
  with the dots, and the gate sees the concatenation. For an \<open>x\<close> of three elements,
  \<open>nm = "a"\<close> of length one and the dots \<open>c("b", "c")\<close>, the call succeeds with the
  names \<open>["a", "b", "c"]\<close>.
\<close>

theorem write_names_direct_dots_counterexample:
  "\<not> (r_is_function (STRSXP [Str ''a''] no_attrib) \<or> r_is_formula (STRSXP [Str ''a''] no_attrib)) \<and>
   r_length (STRSXP [Str ''a''] no_attrib) \<noteq> r_length (INTSXP [Some 1, Some 2, Some 3] no_attrib) \<and>
   rlang_set_names
     (demo_host (Some (Node None (STRSXP [Str ''b'', Str ''c''] no_attrib) None)))
     (INTSXP [Some 1, Some 2, Some 3] no_attrib) (INTSXP [Some 1, Some 2, Some 3] no_attrib)
     (STRSXP [Str ''a''] no_attrib) demo_env []
   = (Inr (INTSXP [Some 1, Some 2, Some 3]
            \<lparr>attr_names = Some [Str ''a'', Str ''b'', Str ''c''], attr_object = False\<rparr>), [])"
  by code_simp

text \<open>
  Claim C3, amended. For a vector \<open>x\<close> and a direct \<open>nm\<close>, the call fails with the
  mismatch error whenever the candidate has a length other than the element count of
  \<open>x\<close>, where the candidate is \<open>nm\<close> coerced to a character vector when there are no
  dots, and the concatenation of \<open>nm\<close> and the dots, coerced, when there are dots.
\<close>

theorem write_names_direct_mismatch:
  assumes vec: "r_is_vector x" and nn: "nm \<noteq> r_null"
    and direct: "\<not> (r_is_function nm \<or> r_is_formula nm)"
    and len: "r_length c \<noteq> r_length x"
  shows "(rlang_dots h env = None \<and> r_as_character h nm env = Inr c \<longrightarrow>
            fst (rlang_set_names h x mold nm env st) = Inl mismatch_error) \<and>
         (\<forall>n v. rlang_dots h env = Some n \<and>
                r_eval_in_with_xy h (fn_call (LISTSXP n no_attrib)) env nm r_dot_x_sym (c_fn h)
                  r_dot_fn_sym = Inr v \<and>
                r_as_character h v env = Inr c \<longrightarrow>
            fst (rlang_set_names h x mold nm env st) = Inl mismatch_error)"
proof (intro conjI allI impI)
  assume a: "rlang_dots h env = None \<and> r_as_character h nm env = Inr c"
  then have "fst (candidate h mold nm (dots_value (rlang_dots h env)) env
                 (KEEP_N (dots_value (rlang_dots h env)) (st, 0))) = Inr c"
    using direct by (simp add: candidate_def direct_candidate_value dots_value_def)
  then show "fst (rlang_set_names h x mold nm env st) = Inl mismatch_error"
    using len by (simp add: set_names_value[OF vec nn] r_is_character_def)
next
  fix n v
  assume a: "rlang_dots h env = Some n \<and>
     r_eval_in_with_xy h (fn_call (LISTSXP n no_attrib)) env nm r_dot_x_sym (c_fn h)
       r_dot_fn_sym = Inr v \<and> r_as_character h v env = Inr c"
  have "0 < node_length n" by (cases n) simp
  with a have "fst (candidate h mold nm (dots_value (rlang_dots h env)) env
                 (KEEP_N (dots_value (rlang_dots h env)) (st, 0))) = Inr c"
    using direct by (simp add: candidate_def direct_candidate_value dots_value_def)
  then show "fst (rlang_set_names h x mold nm env st) = Inl mismatch_error"
    using len by (simp add: set_names_value[OF vec nn] r_is_character_def)
qed

text \<open>
  An \<open>x\<close> of three elements and \<open>nm = "a"\<close>, without dots and with the dots
  \<open>"b"\<close>.
\<close>

theorem write_names_direct_mismatch_witness:
  "fst (rlang_set_names (demo_host None) (INTSXP [Some 1, Some 2, Some 3] no_attrib) r_null
          (STRSXP [Str ''a''] no_attrib) demo_env []) = Inl mismatch_error \<and>
   fst (rlang_set_names (demo_host (Some (Node None (STRSXP [Str ''b''] no_attrib) None)))
          (INTSXP [Some 1, Some 2, Some 3] no_attrib) r_null
          (STRSXP [Str ''a''] no_attrib) demo_env []) = Inl mismatch_error"
proof -
  let ?d = "Node None (STRSXP [Str ''b''] no_attrib) None"
  let ?h0 = "demo_host None :: string host"
  let ?h1 = "demo_host (Some ?d) :: string host"
  let ?x = "INTSXP [Some 1, Some 2, Some 3] no_attrib"
  let ?a = "STRSXP [Str ''a''] no_attrib"
  let ?ab = "STRSXP [Str ''a'', Str ''b''] no_attrib"
  have v: "r_is_vector ?x" by (simp add: r_is_vector_def)
  have n: "?a \<noteq> r_null" by simp
  have dir: "\<not> (r_is_function ?a \<or> r_is_formula ?a)" by (simp add: r_is_function_def)
  have l: "r_length ?a \<noteq> r_length ?x" "r_length ?ab \<noteq> r_length ?x" by simp_all
  have h0: "rlang_dots ?h0 demo_env = None" "r_as_character ?h0 ?a demo_env = Inr ?a"
    by code_simp+
  have h1: "rlang_dots ?h1 demo_env = Some ?d"
    "r_eval_in_with_xy ?h1 (fn_call (LISTSXP ?d no_attrib)) demo_env ?a r_dot_x_sym (c_fn ?h1)
       r_dot_fn_sym = Inr ?ab"
    "r_as_character ?h1 ?ab demo_env = Inr ?ab"
    by code_simp+
  show ?thesis
    using write_names_direct_mismatch [OF v n dir l(1), of ?h0 demo_env r_null "[]"]
      write_names_direct_mismatch [OF v n dir l(2), of ?h1 demo_env r_null "[]"] h0 h1
    by simp
qed

text \<open>
  Claim C6. \<open>rlang_set_names\<close> on an \<open>x\<close> that is not a vector fails with the type
  error, whatever \<open>nm\<close>, the mold and the evaluator are; the only value kept by then is
  the dots.
\<close>

theorem write_names_requires_vector:
  "\<not> r_is_vector x \<Longrightarrow>
   rlang_set_names h x mold nm env st = (Inl type_error, dots_value (rlang_dots h env) # st)"
  by (simp add: rlang_set_names_def Let_def KEEP_N_def KEEP_def)

text \<open>
  A symbol as \<open>x\<close>, with \<open>nm\<close> absent, a function and a character vector.
\<close>

theorem write_names_requires_vector_witness:
  "\<not> r_is_vector (SYMSXP ''a'') \<and>
   rlang_set_names (demo_host None) (SYMSXP ''a'') r_null r_null demo_env [] =
     (Inl type_error, [r_null]) \<and>
   rlang_set_names (demo_host None) (SYMSXP ''a'') r_null (CLOSXP 1 no_attrib) demo_env [] =
     (Inl type_error, [r_null]) \<and>
   rlang_set_names (demo_host None) (SYMSXP ''a'') r_null (STRSXP [Str ''n''] no_attrib) demo_env [] =
     (Inl type_error, [r_null])"
proof -
  have nv: "\<not> r_is_vector (SYMSXP ''a'')"
    by (simp add: r_is_vector_def)
  have d: "dots_value (rlang_dots (demo_host None) demo_env) = r_null"
    by (simp add: dots_value_def demo_host_def)
  show ?thesis
    using nv d
      write_names_requires_vector [OF nv, of "demo_host None" r_null r_null demo_env "[]"]
      write_names_requires_vector [OF nv, of "demo_host None" r_null "CLOSXP 1 no_attrib" demo_env "[]"]
      write_names_requires_vector [OF nv, of "demo_host None" r_null "STRSXP [Str ''n''] no_attrib" demo_env "[]"]
    by simp
qed

text \<open>
  Claim C7 as stated fails for a mold whose names are not a \<open>names\<close> attribute: the
  test of line 85 is the native accessor, which does not dispatch. For an object of the
  values 5 and 6 without a \<open>names\<close> attribute, whose class has a \<open>names\<close> method, the
  reader finds the name \<open>a\<close>, yet the function receives the values \<open>["5", "6"]\<close>; with
  the function that returns its argument these become the new names.
\<close>

theorem write_names_mold_names_counterexample:
  "r_is_function (CLOSXP 1 no_attrib) \<and>
   rlang_names2 one_name_host
     (INTSXP [Some 5, Some 6] \<lparr>attr_names = None, attr_object = True\<rparr>) demo_env []
     = (Inr (STRSXP [Str ''a''] no_attrib), []) \<and>
   r_eval_in_with_xy one_name_host (fn_call r_null) demo_env
     (STRSXP [Str ''5'', Str ''6''] no_attrib) r_dot_x_sym (CLOSXP 1 no_attrib) r_dot_fn_sym
     = Inr (STRSXP [Str ''5'', Str ''6''] no_attrib) \<and>
   rlang_set_names one_name_host (INTSXP [Some 5, Some 6] no_attrib)
     (INTSXP [Some 5, Some 6] \<lparr>attr_names = None, attr_object = True\<rparr>)
     (CLOSXP 1 no_attrib) demo_env []
     = (Inr (INTSXP [Some 5, Some 6]
              \<lparr>attr_names = Some [Str ''5'', Str ''6''], attr_object = False\<rparr>), [])"
  by code_simp

text \<open>
  Claim C7, amended. For a function-valued \<open>nm\<close> (a function or a formula shorthand),
  the argument is decided by the \<open>names\<close> attribute of the mold as the native accessor
  reads it, without dispatch and without the tags of a pairlist: when it is absent, the
  argument is what the evaluator returns for \<open>as.character(.x)\<close> on the mold; otherwise
  it is \<open>rlang_names2 mold\<close>. The function is what the evaluator returns for
  \<open>as_function(.x)\<close> on \<open>nm\<close>. The evaluator is then called on \<open>.fn(.x, ...)\<close>, whose
  cells after \<open>.x\<close> are the dots of the environment, with \<open>.x\<close> bound to the argument
  and \<open>.fn\<close> to the function; what it returns is the candidate, which goes through the
  gate and, if it passes, to \<open>names<-\<close>.
\<close>

theorem write_names_function_argument:
  assumes fn: "r_is_function nm \<or> r_is_formula nm"
    and vec: "r_is_vector x"
    and f: "r_eval_in_with_x h
              (LANGSXP (Node None (SYMSXP ''as_function'') (Some (Node None (SYMSXP ''.x'') None)))
                 no_attrib)
              env nm (SYMSXP ''.x'') = Inr f"
    and a1: "r_names mold = r_null \<Longrightarrow>
             r_eval_in_with_x h
               (LANGSXP (Node None (SYMSXP ''as.character'') (Some (Node None (SYMSXP ''.x'') None)))
                  no_attrib)
               env mold (SYMSXP ''.x'') = Inr arg"
    and a2: "r_names mold \<noteq> r_null \<Longrightarrow> fst (rlang_names2 h mold env st0) = Inr arg"
  shows "fst (rlang_set_names h x mold nm env st) =
           (case r_eval_in_with_xy h
                   (LANGSXP (Node None (SYMSXP ''.fn'')
                      (Some (Node None (SYMSXP ''.x'') (rlang_dots h env)))) no_attrib)
                   env arg (SYMSXP ''.x'') f (SYMSXP ''.fn'') of
              Inl e \<Rightarrow> Inl (Propagated e)
            | Inr v \<Rightarrow>
                if r_is_character v (r_length x)
                then (case r_eval_in_with_xy h
                             (LANGSXP (Node None (SYMSXP ''names<-'')
                                (Some (Node None (SYMSXP ''.x'')
                                   (Some (Node None (SYMSXP ''.y'') None))))) no_attrib)
                             env x (SYMSXP ''.x'') v (SYMSXP ''.y'') of
                        Inl e \<Rightarrow> Inl (Propagated e) | Inr y \<Rightarrow> Inr y)
                else Inl mismatch_error)"
proof -
  let ?dots = "dots_value (rlang_dots h env)"
  have f': "r_as_function h nm env = Inr f"
    using f by (simp add: r_as_function_def templates r_dot_x_sym_def)
  have a1': "r_is_null (r_names mold) \<Longrightarrow> r_as_character h mold env = Inr arg"
    using a1 by (simp add: r_as_character_def templates r_dot_x_sym_def r_is_null_def)
  have a2': "\<not> r_is_null (r_names mold) \<Longrightarrow> fst (rlang_names2 h mold env st0) = Inr arg"
    using a2 by (simp add: r_is_null_def)
  have c: "fst (candidate h mold nm ?dots env (KEEP_N ?dots (st, 0))) =
      (case r_eval_in_with_xy h (fn_call ?dots) env arg r_dot_x_sym f r_dot_fn_sym of
         Inl e \<Rightarrow> Inl (Propagated e) | Inr v \<Rightarrow> Inr v)"
    using fn function_candidate_value[OF f' a1' a2'] by (simp add: candidate_def)
  from fn have nn: "nm \<noteq> r_null"
    by (auto simp: r_is_function_def)
  show ?thesis
    unfolding set_names_value[OF vec nn] c
    by (simp add: templates r_set_names_dispatch_def r_dot_x_sym_def r_dot_y_sym_def
        r_dot_fn_sym_def split: sum.splits)
qed

text \<open>
  For \<open>x = [10, 20]\<close> without names and the mold \<open>x\<close>, the function receives
  \<open>["10", "20"]\<close>, and with the function that returns its argument these are the new
  names. For a mold with the names \<open>["k", NA]\<close>, a formula shorthand that the evaluator
  turns into \<open>c\<close> and the dots \<open>"z"\<close>, the function receives \<open>["k", ""]\<close> followed
  by the dots, and the new names are \<open>["k", "", "z"]\<close>.
\<close>

theorem write_names_function_argument_witness:
  "r_eval_in_with_x (demo_host None)
     (LANGSXP (Node None (SYMSXP ''as.character'') (Some (Node None (SYMSXP ''.x'') None)))
        no_attrib)
     demo_env (INTSXP [Some 10, Some 20] no_attrib) (SYMSXP ''.x'')
     = Inr (STRSXP [Str ''10'', Str ''20''] no_attrib) \<and>
   fst (rlang_set_names (demo_host None) (INTSXP [Some 10, Some 20] no_attrib)
     (INTSXP [Some 10, Some 20] no_attrib) (CLOSXP 1 no_attrib) demo_env [])
     = (case r_eval_in_with_xy (demo_host None)
               (LANGSXP (Node None (SYMSXP ''.fn'') (Some (Node None (SYMSXP ''.x'') None)))
                  no_attrib)
               demo_env (STRSXP [Str ''10'', Str ''20''] no_attrib) (SYMSXP ''.x'')
               (CLOSXP 1 no_attrib) (SYMSXP ''.fn'') of
          Inl e \<Rightarrow> Inl (Propagated e)
        | Inr v \<Rightarrow>
            if r_is_character v (r_length (INTSXP [Some 10, Some 20] no_attrib))
            then (case r_eval_in_with_xy (demo_host None)
                         (LANGSXP (Node None (SYMSXP ''names<-'')
                            (Some (Node None (SYMSXP ''.x'')
                               (Some (Node None (SYMSXP ''.y'') None))))) no_attrib)
                         demo_env (INTSXP [Some 10, Some 20] no_attrib) (SYMSXP ''.x'') v
                         (SYMSXP ''.y'') of
                    Inl e \<Rightarrow> Inl (Propagated e) | Inr y \<Rightarrow> Inr y)
            else Inl mismatch_error) \<and>
   rlang_set_names (demo_host None) (INTSXP [Some 10, Some 20] no_attrib)
     (INTSXP [Some 10, Some 20] no_attrib) (CLOSXP 1 no_attrib) demo_env []
     = (Inr (INTSXP [Some 10, Some 20]
              \<lparr>attr_names = Some [Str ''10'', Str ''20''], attr_object = False\<rparr>), []) \<and>
   fst (rlang_names2 (formula_host (Some (Node None (STRSXP [Str ''z''] no_attrib) None)))
          (INTSXP [Some 7, Some 8] \<lparr>attr_names = Some [Str ''k'', NA_STRING], attr_object = False\<rparr>)
          demo_env [])
     = Inr (STRSXP [Str ''k'', r_empty_str] no_attrib) \<and>
   fst (rlang_set_names
          (formula_host (Some (Node None (STRSXP [Str ''z''] no_attrib) None)))
          (INTSXP [Some 1, Some 2, Some 3] no_attrib)
          (INTSXP [Some 7, Some 8] \<lparr>attr_names = Some [Str ''k'', NA_STRING], attr_object = False\<rparr>)
          (LANGSXP (Node None (SYMSXP ''~'') (Some (Node None (SYMSXP ''.x'') None))) no_attrib)
          demo_env [])
     = (case r_eval_in_with_xy
               (formula_host (Some (Node None (STRSXP [Str ''z''] no_attrib) None)))
               (LANGSXP (Node None (SYMSXP ''.fn'')
                  (Some (Node None (SYMSXP ''.x'')
                     (Some (Node None (STRSXP [Str ''z''] no_attrib) None))))) no_attrib)
               demo_env (STRSXP [Str ''k'', r_empty_str] no_attrib) (SYMSXP ''.x'')
               (CLOSXP 0 no_attrib) (SYMSXP ''.fn'') of
          Inl e \<Rightarrow> Inl (Propagated e)
        | Inr v \<Rightarrow>
            if r_is_character v (r_length (INTSXP [Some 1, Some 2, Some 3] no_attrib))
            then (case r_eval_in_with_xy
                         (formula_host (Some (Node None (STRSXP [Str ''z''] no_attrib) None)))
                         (LANGSXP (Node None (SYMSXP ''names<-'')
                            (Some (Node None (SYMSXP ''.x'')
                               (Some (Node None (SYMSXP ''.y'') None))))) no_attrib)
                         demo_env (INTSXP [Some 1, Some 2, Some 3] no_attrib) (SYMSXP ''.x'') v
                         (SYMSXP ''.y'') of
                    Inl e \<Rightarrow> Inl (Propagated e) | Inr y \<Rightarrow> Inr y)
            else Inl mismatch_error) \<and>
   fst (rlang_set_names
          (formula_host (Some (Node None (STRSXP [Str ''z''] no_attrib) None)))
          (INTSXP [Some 1, Some 2, Some 3] no_attrib)
          (INTSXP [Some 7, Some 8] \<lparr>attr_names = Some [Str ''k'', NA_STRING], attr_object = False\<rparr>)
          (LANGSXP (Node None (SYMSXP ''~'') (Some (Node None (SYMSXP ''.x'') None))) no_attrib)
          demo_env [])
     = Inr (INTSXP [Some 1, Some 2, Some 3]
              \<lparr>attr_names = Some [Str ''k'', r_empty_str, Str ''z''], attr_object = False\<rparr>)"
proof -
  let ?h = "demo_host None :: string host"
  let ?x = "INTSXP [Some 10, Some 20] no_attrib"
  let ?f = "CLOSXP 1 no_attrib"
  let ?c = "STRSXP [Str ''10'', Str ''20''] no_attrib"
  let ?asf = "LANGSXP (Node None (SYMSXP ''as_function'') (Some (Node None (SYMSXP ''.x'') None)))
                 no_attrib"
  let ?asc = "LANGSXP (Node None (SYMSXP ''as.character'') (Some (Node None (SYMSXP ''.x'') None)))
                 no_attrib"
  have fn: "r_is_function ?f \<or> r_is_formula ?f"
    by (simp add: r_is_function_def)
  have v: "r_is_vector ?x" by (simp add: r_is_vector_def)
  have f: "r_eval_in_with_x ?h ?asf demo_env ?f (SYMSXP ''.x'') = Inr ?f"
    by code_simp
  have a: "r_eval_in_with_x ?h ?asc demo_env ?x (SYMSXP ''.x'') = Inr ?c"
    by code_simp
  have nn: "r_names ?x = r_null"
    by code_simp
  have a2: "r_names ?x \<noteq> r_null \<Longrightarrow> fst (rlang_names2 ?h ?x demo_env []) = Inr ?c"
    using nn by simp
  have d: "rlang_dots ?h demo_env = None"
    by code_simp
  have r: "rlang_set_names ?h ?x ?x ?f demo_env []
     = (Inr (INTSXP [Some 10, Some 20]
              \<lparr>attr_names = Some [Str ''10'', Str ''20''], attr_object = False\<rparr>), [])"
    by code_simp
  let ?z = "Some (Node None (STRSXP [Str ''z''] no_attrib) None)"
  let ?g = "formula_host ?z :: string host"
  let ?y = "INTSXP [Some 1, Some 2, Some 3] no_attrib"
  let ?m = "INTSXP [Some 7, Some 8] \<lparr>attr_names = Some [Str ''k'', NA_STRING], attr_object = False\<rparr>"
  let ?t = "LANGSXP (Node None (SYMSXP ''~'') (Some (Node None (SYMSXP ''.x'') None))) no_attrib"
  let ?k = "STRSXP [Str ''k'', r_empty_str] no_attrib"
  have fn': "r_is_function ?t \<or> r_is_formula ?t"
    by simp
  have v': "r_is_vector ?y" by (simp add: r_is_vector_def)
  have f': "r_eval_in_with_x ?g ?asf demo_env ?t (SYMSXP ''.x'') = Inr (CLOSXP 0 no_attrib)"
    by code_simp
  have nn': "r_names ?m \<noteq> r_null"
    by code_simp
  have a1': "r_names ?m = r_null \<Longrightarrow>
      r_eval_in_with_x ?g ?asc demo_env ?m (SYMSXP ''.x'') = Inr ?k"
    using nn' by simp
  have a2': "fst (rlang_names2 ?g ?m demo_env []) = Inr ?k"
    by code_simp
  have d': "rlang_dots ?g demo_env = ?z"
    by code_simp
  have r': "fst (rlang_set_names ?g ?y ?m ?t demo_env [])
     = Inr (INTSXP [Some 1, Some 2, Some 3]
              \<lparr>attr_names = Some [Str ''k'', r_empty_str, Str ''z''], attr_object = False\<rparr>)"
    by code_simp
  show ?thesis
    using write_names_function_argument [OF fn v f a a2, of "[]"]
      write_names_function_argument [OF fn' v' f' a1' a2', of "[]"] a a2' r r' d d'
    by simp
qed

text \<open>
  Claim C8 as stated fails for an object whose \<open>names\<close> method does not read the
  \<open>names\<close> attribute. For an object of two elements whose class has a \<open>names\<close> method
  that answers the one name \<open>a\<close>, and \<open>nm = ["p", "q"]\<close>, the writer stores
  \<open>["p", "q"]\<close> and the reader returns \<open>["a"]\<close>.
\<close>

theorem names_round_trip_counterexample:
  "r_is_vector (INTSXP [Some 1, Some 2] \<lparr>attr_names = None, attr_object = True\<rparr>) \<and>
   length [Str ''p'', Str ''q'']
     = r_length (INTSXP [Some 1, Some 2] \<lparr>attr_names = None, attr_object = True\<rparr>) \<and>
   NA_STRING \<notin> set [Str ''p'', Str ''q''] \<and>
   rlang_dots one_name_host demo_env = None \<and>
   rlang_set_names one_name_host
     (INTSXP [Some 1, Some 2] \<lparr>attr_names = None, attr_object = True\<rparr>)
     (INTSXP [Some 1, Some 2] \<lparr>attr_names = None, attr_object = True\<rparr>)
     (STRSXP [Str ''p'', Str ''q''] no_attrib) demo_env []
     = (Inr (INTSXP [Some 1, Some 2]
              \<lparr>attr_names = Some [Str ''p'', Str ''q''], attr_object = True\<rparr>), []) \<and>
   rlang_names2 one_name_host
     (INTSXP [Some 1, Some 2] \<lparr>attr_names = Some [Str ''p'', Str ''q''], attr_object = True\<rparr>)
     demo_env []
     = (Inr (STRSXP [Str ''a''] no_attrib), []) \<and>
   [Str ''a''] \<noteq> [Str ''p'', Str ''q'']"
  by code_simp

text \<open>
  Claim C8, amended. Let \<open>x\<close> be a vector and \<open>nm\<close> a character vector of the length
  of \<open>x\<close> without missing strings, with no dots. If the evaluator returns the strings of
  \<open>nm\<close> for \<open>as.character(.x)\<close> on \<open>nm\<close>, returns \<open>x\<close> with these strings as its
  \<open>names\<close> attribute for \<open>names<-\<close>, and, when \<open>x\<close> is an object, returns them for
  \<open>names(.x)\<close> on the result, then writing \<open>nm\<close> and reading the names of the result
  gives the strings of \<open>nm\<close>, none replaced, and both calls leave the protection stack
  as it was. For an \<open>x\<close> that is not an object the reader needs no call of the
  evaluator.
\<close>

theorem names_round_trip:
  assumes vec: "r_is_vector x"
    and len: "length ns = r_length x"
    and na: "NA_STRING \<notin> set ns"
    and dots: "rlang_dots h env = None"
    and chr: "r_eval_in_with_x h
                (LANGSXP (Node None (SYMSXP ''as.character'') (Some (Node None (SYMSXP ''.x'') None)))
                   no_attrib)
                env (STRSXP ns a) (SYMSXP ''.x'') = Inr (STRSXP ns b)"
    and set: "r_eval_in_with_xy h
                (LANGSXP (Node None (SYMSXP ''names<-'')
                   (Some (Node None (SYMSXP ''.x'') (Some (Node None (SYMSXP ''.y'') None)))))
                   no_attrib)
                env x (SYMSXP ''.x'') (STRSXP ns b) (SYMSXP ''.y'')
              = Inr (with_names x (Some ns))"
    and get: "r_is_object x \<Longrightarrow>
              r_eval_in_with_x h
                (LANGSXP (Node None (SYMSXP ''names'') (Some (Node None (SYMSXP ''.x'') None)))
                   no_attrib)
                env (with_names x (Some ns)) (SYMSXP ''.x'') = Inr (STRSXP ns no_attrib)"
  shows "rlang_set_names h x x (STRSXP ns a) env st = (Inr (with_names x (Some ns)), st) \<and>
         rlang_names2 h (with_names x (Some ns)) env st = (Inr (STRSXP ns no_attrib), st)"
proof
  let ?nm = "STRSXP ns a"
  have chr': "r_as_character h ?nm env = Inr (STRSXP ns b)"
    using chr by (simp add: r_as_character_def templates r_dot_x_sym_def)
  have set': "r_set_names_dispatch h x (STRSXP ns b) env = Inr (with_names x (Some ns))"
    using set by (simp add: r_set_names_dispatch_def templates r_dot_x_sym_def r_dot_y_sym_def)
  have get': "r_is_object x \<Longrightarrow>
      r_names_dispatch h (with_names x (Some ns)) env = Inr (STRSXP ns no_attrib)"
    using get by (simp add: r_names_dispatch_def templates r_dot_x_sym_def)
  have nn: "?nm \<noteq> r_null" by simp
  have direct: "\<not> (r_is_function ?nm \<or> r_is_formula ?nm)"
    by (simp add: r_is_function_def)
  have "fst (candidate h x ?nm (dots_value (rlang_dots h env)) env
               (KEEP_N (dots_value (rlang_dots h env)) (st, 0))) = Inr (STRSXP ns b)"
    using direct dots chr' by (simp add: candidate_def direct_candidate_value dots_value_def)
  then have v: "fst (rlang_set_names h x x ?nm env st) = Inr (with_names x (Some ns))"
    using len set' by (simp add: set_names_value[OF vec nn] r_is_character_def)
  obtain r st' where r: "rlang_set_names h x x ?nm env st = (r, st')"
    by (cases "rlang_set_names h x x ?nm env st")
  from set_names_stack[OF r] v r
  show "rlang_set_names h x x ?nm env st = (Inr (with_names x (Some ns)), st)"
    by simp
  let ?y = "with_names x (Some ns)"
  from vec have ne: "r_typeof ?y \<noteq> r_type_environment"
    by (auto simp: with_names_vector(1)[OF vec] r_is_vector_def)
  have u: "underlying_names h ?y env = Inr (STRSXP ns no_attrib)"
    using get' by (simp add: underlying_names_def with_names_vector[OF vec])
  show "rlang_names2 h ?y env st = (Inr (STRSXP ns no_attrib), st)"
    using names2_chr_names[OF ne with_names_vector(2)[OF vec] u]
    by (simp add: replace_missing_id[OF na])
qed

text \<open>
  An integer vector of two elements with the names \<open>["a", "b"]\<close>, and an object whose
  \<open>names\<close> reads the attribute.
\<close>

theorem names_round_trip_witness:
  "rlang_set_names (demo_host None) (INTSXP [Some 1, Some 2] no_attrib)
     (INTSXP [Some 1, Some 2] no_attrib) (STRSXP [Str ''a'', Str ''b''] no_attrib) demo_env []
   = (Inr (INTSXP [Some 1, Some 2]
            \<lparr>attr_names = Some [Str ''a'', Str ''b''], attr_object = False\<rparr>), []) \<and>
   rlang_names2 (demo_host None)
     (INTSXP [Some 1, Some 2] \<lparr>attr_names = Some [Str ''a'', Str ''b''], attr_object = False\<rparr>)
     demo_env []
   = (Inr (STRSXP [Str ''a'', Str ''b''] no_attrib), []) \<and>
   rlang_set_names (demo_host None)
     (STRSXP [Str ''u''] \<lparr>attr_names = None, attr_object = True\<rparr>)
     (STRSXP [Str ''u''] \<lparr>attr_names = None, attr_object = True\<rparr>)
     (STRSXP [Str ''k''] no_attrib) demo_env []
   = (Inr (STRSXP [Str ''u''] \<lparr>attr_names = Some [Str ''k''], attr_object = True\<rparr>), []) \<and>
   rlang_names2 (demo_host None)
     (STRSXP [Str ''u''] \<lparr>attr_names = Some [Str ''k''], attr_object = True\<rparr>) demo_env []
   = (Inr (STRSXP [Str ''k''] no_attrib), [])"
proof -
  let ?h = "demo_host None :: string host"
  let ?x = "INTSXP [Some 1, Some 2] no_attrib"
  let ?ns = "[Str ''a'', Str ''b'']"
  let ?nm = "STRSXP ?ns no_attrib"
  let ?y = "STRSXP [Str ''u''] \<lparr>attr_names = None, attr_object = True\<rparr>"
  let ?k = "STRSXP [Str ''k''] no_attrib"
  let ?asc = "LANGSXP (Node None (SYMSXP ''as.character'') (Some (Node None (SYMSXP ''.x'') None)))
                 no_attrib"
  let ?nms = "LANGSXP (Node None (SYMSXP ''names'') (Some (Node None (SYMSXP ''.x'') None)))
                 no_attrib"
  let ?set = "LANGSXP (Node None (SYMSXP ''names<-'')
                 (Some (Node None (SYMSXP ''.x'') (Some (Node None (SYMSXP ''.y'') None)))))
                 no_attrib"
  have v: "r_is_vector ?x" "r_is_vector ?y" by (simp_all add: r_is_vector_def)
  have l: "length ?ns = r_length ?x" "length [Str ''k''] = r_length ?y" by simp_all
  have na: "NA_STRING \<notin> set ?ns" "NA_STRING \<notin> set [Str ''k'']" by simp_all
  have d: "rlang_dots ?h demo_env = None" by code_simp
  have c: "r_eval_in_with_x ?h ?asc demo_env ?nm (SYMSXP ''.x'') = Inr ?nm"
    "r_eval_in_with_x ?h ?asc demo_env ?k (SYMSXP ''.x'') = Inr ?k"
    by code_simp+
  have s: "r_eval_in_with_xy ?h ?set demo_env ?x (SYMSXP ''.x'') ?nm (SYMSXP ''.y'')
             = Inr (with_names ?x (Some ?ns))"
    "r_eval_in_with_xy ?h ?set demo_env ?y (SYMSXP ''.x'') ?k (SYMSXP ''.y'')
             = Inr (with_names ?y (Some [Str ''k'']))"
    by code_simp+
  have g: "r_is_object ?x \<Longrightarrow>
      r_eval_in_with_x ?h ?nms demo_env (with_names ?x (Some ?ns)) (SYMSXP ''.x'')
        = Inr (STRSXP ?ns no_attrib)"
    by (simp add: r_is_object_def no_attrib_def)
  have g': "r_is_object ?y"
    "r_eval_in_with_x ?h ?nms demo_env (with_names ?y (Some [Str ''k''])) (SYMSXP ''.x'') = Inr ?k"
    by code_simp+
  have w: "with_names ?x (Some ?ns)
      = INTSXP [Some 1, Some 2] \<lparr>attr_names = Some ?ns, attr_object = False\<rparr>"
    "with_names ?y (Some [Str ''k''])
      = STRSXP [Str ''u''] \<lparr>attr_names = Some [Str ''k''], attr_object = True\<rparr>"
    by (simp_all add: no_attrib_def)
  show ?thesis
    using names_round_trip [OF v(1) l(1) na(1) d c(1) s(1) g, of "[]"]
      names_round_trip [OF v(2) l(2) na(2) d c(2) s(2) g'(2), of "[]"] w
    by simp
qed

text \<open>
  Claim C10. A candidate that is a character vector of the length of \<open>x\<close> passes the
  gate whatever its strings are, the missing string included, and is handed to the
  assignment template as it is: the result of the call is the result of the template on
  \<open>x\<close> and that candidate.
\<close>

theorem write_names_keeps_candidate:
  assumes vec: "r_is_vector x" and nn: "nm \<noteq> r_null"
    and c: "candidate h mold nm (dots_value (rlang_dots h env)) env
              (KEEP_N (dots_value (rlang_dots h env)) (st, 0)) = (Inr (STRSXP ns a), k1)"
    and len: "length ns = r_length x"
  shows "r_is_character (STRSXP ns a) (r_length x) \<and>
         rlang_set_names h x mold nm env st =
           (case r_set_names_dispatch h x (STRSXP ns a) env of
              Inl e \<Rightarrow> (Inl (Propagated e), fst k1)
            | Inr y \<Rightarrow> (Inr y, st))"
proof
  show g: "r_is_character (STRSXP ns a) (r_length x)"
    using len by (simp add: r_is_character_def)
  obtain r st' where r: "rlang_set_names h x mold nm env st = (r, st')"
    by (cases "rlang_set_names h x mold nm env st")
  note s = set_names_stack[OF r]
  from vec nn c g r s
  show "rlang_set_names h x mold nm env st =
           (case r_set_names_dispatch h x (STRSXP ns a) env of
              Inl e \<Rightarrow> (Inl (Propagated e), fst k1)
            | Inr y \<Rightarrow> (Inr y, st))"
    by (auto simp: rlang_set_names_def Let_def split: sum.splits)
qed

text \<open>
  The names \<open>["a", NA]\<close> are assigned with the missing string in place.
\<close>

theorem write_names_keeps_candidate_witness:
  "rlang_set_names (demo_host None) (INTSXP [Some 1, Some 2] no_attrib) r_null
     (STRSXP [Str ''a'', NA_STRING] no_attrib) demo_env []
   = (Inr (INTSXP [Some 1, Some 2]
            \<lparr>attr_names = Some [Str ''a'', NA_STRING], attr_object = False\<rparr>), [])"
proof -
  let ?h = "demo_host None :: string host"
  let ?x = "INTSXP [Some 1, Some 2] no_attrib"
  let ?nm = "STRSXP [Str ''a'', NA_STRING] no_attrib"
  have v: "r_is_vector ?x" by (simp add: r_is_vector_def)
  have n: "?nm \<noteq> r_null" by simp
  have c: "candidate ?h r_null ?nm (dots_value (rlang_dots ?h demo_env)) demo_env
             (KEEP_N (dots_value (rlang_dots ?h demo_env)) ([], 0)) = (Inr ?nm, [?nm, r_null], 2)"
    by code_simp
  have l: "length [Str ''a'', NA_STRING] = r_length ?x" by simp
  have s: "r_set_names_dispatch ?h ?x ?nm demo_env
     = Inr (INTSXP [Some 1, Some 2]
              \<lparr>attr_names = Some [Str ''a'', NA_STRING], attr_object = False\<rparr>)"
    by code_simp
  show ?thesis
    using write_names_keeps_candidate [OF v n c l] s by simp
qed

subsection \<open>The protection stack\<close>

text \<open>
  Claim C9 as stated fails on the paths that abort: no \<open>FREE\<close> precedes an
  \<open>r_abort\<close>, and none follows a call of the evaluator that raises. When \<open>x\<close> is not a
  vector, the dots are still on the stack when the type error is raised.
\<close>

theorem protect_balance_counterexample:
  "rlang_set_names (demo_host None) (SYMSXP ''a'') r_null r_null demo_env []
     = (Inl type_error, [r_null]) \<and>
   length [r_null] \<noteq> length ([] :: pstack)"
  by code_simp

text \<open>
  Claim C9, amended. Every call of \<open>rlang_names2\<close> or \<open>rlang_set_names\<close> that returns
  a value leaves the protection stack as it was at entry. A call that aborts releases
  nothing: the stack at the abort is the stack at entry under the values kept until then,
  at most one for \<open>rlang_names2\<close> and between one and five for \<open>rlang_set_names\<close>;
  taking them off is left to the unwinding of the evaluator.
\<close>

theorem protect_balance:
  "(case rlang_names2 h x env st of
      (Inr v, st') \<Rightarrow> st' = st
    | (Inl e, st') \<Rightarrow> \<exists>ks. st' = ks @ st \<and> length ks \<le> 1) \<and>
   (case rlang_set_names h x mold nm env st of
      (Inr v, st') \<Rightarrow> st' = st
    | (Inl e, st') \<Rightarrow> \<exists>ks. st' = ks @ st \<and> 1 \<le> length ks \<and> length ks \<le> 5)"
proof
  obtain r st' where r: "rlang_names2 h x env st = (r, st')"
    by (cases "rlang_names2 h x env st")
  from names2_stack[OF r] r
  show "case rlang_names2 h x env st of
      (Inr v, st') \<Rightarrow> st' = st
    | (Inl e, st') \<Rightarrow> \<exists>ks. st' = ks @ st \<and> length ks \<le> 1"
    by (simp split: sum.splits)
  obtain r st' where r: "rlang_set_names h x mold nm env st = (r, st')"
    by (cases "rlang_set_names h x mold nm env st")
  from set_names_stack[OF r] r
  show "case rlang_set_names h x mold nm env st of
      (Inr v, st') \<Rightarrow> st' = st
    | (Inl e, st') \<Rightarrow> \<exists>ks. st' = ks @ st \<and> 1 \<le> length ks \<and> length ks \<le> 5"
    by (simp split: sum.splits)
qed

text \<open>
  Both calls on a stack that already holds a value.
\<close>

theorem protect_balance_witness:
  "rlang_names2 (demo_host None) (INTSXP [Some 1, Some 2] no_attrib) demo_env [SYMSXP ''kept'']
     = (Inr (STRSXP [r_empty_str, r_empty_str] no_attrib), [SYMSXP ''kept'']) \<and>
   snd (rlang_set_names (demo_host None) (INTSXP [Some 1, Some 2] no_attrib) r_null
     (STRSXP [Str ''a'', Str ''b''] no_attrib) demo_env [SYMSXP ''kept'']) = [SYMSXP ''kept'']"
proof -
  let ?h = "demo_host None :: string host"
  let ?x = "INTSXP [Some 1, Some 2] no_attrib"
  let ?nm = "STRSXP [Str ''a'', Str ''b''] no_attrib"
  have a: "fst (rlang_names2 ?h ?x demo_env [SYMSXP ''kept''])
      = Inr (STRSXP [r_empty_str, r_empty_str] no_attrib)"
    by code_simp
  have b: "fst (rlang_set_names ?h ?x r_null ?nm demo_env [SYMSXP ''kept''])
      = Inr (INTSXP [Some 1, Some 2]
              \<lparr>attr_names = Some [Str ''a'', Str ''b''], attr_object = False\<rparr>)"
    by code_simp
  show ?thesis
    using protect_balance [where h = ?h and x = ?x and env = demo_env and st = "[SYMSXP ''kept'']"
        and mold = r_null and nm = ?nm] a b
    by (auto split: prod.splits sum.splits)
qed

end
